theory Spec2Isabelle
  imports
    Complex_Main
    "HOL-Library.AList"
    "HOL-Library.Char_ord"
    "HOL-Library.List_Lexorder"
    "HOL-Library.Multiset"
    "HOL-Library.Product_Lexorder"
begin

section \<open>Constants of the plugin (constants.py)\<close>

text \<open>
  The classes \<open>METRICS_DATASET\<close> and \<open>TIMESERIES_KEYS\<close> of constants.py hold string
  labels; \<open>EVALUATION_METRICS_DESCRIPTIONS\<close> is a dict whose keys, in insertion order,
  are the eight metric names. Only the keys are read by model.py.
\<close>

definition TARGET_COLUMN :: string where
  "TARGET_COLUMN = ''target_column''"

definition MODEL_COLUMN :: string where
  "MODEL_COLUMN = ''model''"

definition AGGREGATED_ROW :: string where
  "AGGREGATED_ROW = ''aggregated''"

definition MODEL_PARAMETERS :: string where
  "MODEL_PARAMETERS = ''model_params''"

definition EVALUATION_METRICS_DESCRIPTIONS :: "(string \<times> string) list" where
  "EVALUATION_METRICS_DESCRIPTIONS =
     [(''MSE'', ''Mean Squared Error''),
      (''MASE'', ''Mean Absolute Scaled Error''),
      (''MAPE'', ''Mean Absolute Percentage Error''),
      (''sMAPE'', ''Symmetric Mean Absolute Percentage Error''),
      (''MSIS'', ''Mean Scaled Interval Score''),
      (''RMSE'', ''Root Mean Square Error''),
      (''ND'', ''Normalized Deviation''),
      (''mean_wQuantileLoss'', ''Mean Weight Quantile Loss'')]"

text \<open>\<open>list(EVALUATION_METRICS_DESCRIPTIONS.keys())\<close>\<close>

definition metrics_keys :: "string list" where
  "metrics_keys = map fst EVALUATION_METRICS_DESCRIPTIONS"

section \<open>Values of the Python program\<close>

text \<open>
  Exceptions are values. \<open>ModelTrainingError\<close> is the class model.py declares; the
  others are the built-in exceptions its subscripts, its division and its call of
  \<open>json.dumps\<close> can raise, and \<open>ExternalError\<close> stands for an exception that leaves
  a function of the wrapped libraries or of the model handler.
\<close>

datatype error =
    ModelTrainingError string
  | IndexError
  | KeyError string
  | ValueError
  | ZeroDivisionError
  | TypeError
  | ExternalError string

text \<open>Objects of the wrapped forecasting library are opaque handles.\<close>

datatype estimator = Estimator nat
datatype predictor = Predictor nat
datatype trainer = Trainer nat
datatype forecast = Forecast nat

text \<open>An MXNet context is known to this code only through \<open>str\<close>.\<close>

datatype mxnet_context = Context string

fun str_context :: "mxnet_context \<Rightarrow> string" where
  "str_context (Context s) = s"

text \<open>
  The Python values that reach \<open>json.dumps\<close>. A float is finite or one of the three
  special values; a dict keeps its insertion order, and its keys are strings,
  numbers, booleans, \<open>None\<close> or some other hashable object; a list stands for a list or
  a tuple; \<open>PObject\<close> is an object of any other class, known by its description.
\<close>

datatype pyfloat = Finite real | NaN | Infinity | NegInfinity

datatype pykey =
    KeyStr string
  | KeyInt int
  | KeyFloat pyfloat
  | KeyBool bool
  | KeyNone
  | KeyObject string

datatype pyvalue =
    PNone
  | PBool bool
  | PInt int
  | PFloat pyfloat
  | PStr string
  | PList "pyvalue list"
  | PDict "(pykey \<times> pyvalue) list"
  | PObject string

text \<open>Keyword arguments: a dict from names to values of several Python types.\<close>

datatype kwval =
    KStr string
  | KInt int
  | KBool bool
  | KTrainer trainer
  | KCtx "mxnet_context option"

type_synonym kwargs = "(string \<times> kwval) list"

text \<open>
  \<open>d[k] = v\<close> and \<open>d.update({k: v})\<close> on a dict: the value of an existing key is
  replaced in place, a new key goes last.
\<close>

definition dict_set :: "'k \<Rightarrow> 'a \<Rightarrow> ('k \<times> 'a) list \<Rightarrow> ('k \<times> 'a) list" where
  "dict_set k v d = AList.update k v d"

text \<open>
  A univariate timeseries of a ListDataset is a dict; the GluonDataset class always
  stores \<open>target_name\<close> and \<open>target\<close>, and stores \<open>identifiers\<close> (a dict from
  identifier column to value) only for long-format data.
\<close>

record 'v timeseries =
  target_name :: string
  target :: "real list"
  identifiers :: "(string \<times> 'v) list option"

type_synonym 'v list_dataset = "'v timeseries list"

section \<open>The model handler and the wrapped libraries\<close>

text \<open>
  \<open>ModelHandler\<close> (gluonts_forecasts/model_handler.py) is the base class of \<open>Model\<close>;
  its methods look the model name up in a table of descriptors. They are parameters
  here. \<open>mh_trainer\<close> and \<open>mh_estimator\<close> answer \<open>None\<close> for a model without a trainer
  or an estimator; building an object of the library can raise, and \<open>Inl\<close> then
  carries the text of that exception.
\<close>

record model_handler =
  mh_can_use_external_feature :: "string \<Rightarrow> bool"
  mh_can_use_seasonality :: "string \<Rightarrow> bool"
  mh_needs_num_samples :: "string \<Rightarrow> bool"
  mh_get_label :: "string \<Rightarrow> string"
  mh_trainer :: "string \<Rightarrow> kwargs \<Rightarrow> string + trainer option"
  mh_estimator :: "string \<Rightarrow> pyvalue \<Rightarrow> kwargs \<Rightarrow> string + estimator option"
  mh_predictor :: "string \<Rightarrow> kwargs \<Rightarrow> string + predictor"

text \<open>
  A pandas date offset, as far as \<open>Model.__init__\<close> reads it: its class (what
  \<open>isinstance\<close> inspects) and its \<open>name\<close>.
\<close>

record offset =
  offset_class :: string
  offset_name :: string

text \<open>
  A pandas DataFrame: the column labels in order, and the rows, each giving the cell
  under a label. A cell holds a string, an identifier value, a float or NaN.
\<close>

datatype 'v cell = CStr string | CId 'v | CNum real | CNaN

record 'v dataframe =
  df_columns :: "string list"
  df_rows :: "(string \<Rightarrow> 'v cell) list"

text \<open>A pandas Series of forecast values, with its name.\<close>

record series =
  series_name :: string
  series_values :: "real list"

text \<open>
  What a call of \<open>estimator.train\<close> does: it returns a predictor, or raises an
  exception that is an instance of \<open>Exception\<close> (with the text \<open>str(err)\<close>), or
  raises one that is not, such as KeyboardInterrupt or SystemExit, which derive from
  \<open>BaseException\<close> only.
\<close>

datatype training_outcome =
    Trained predictor
  | RaisesException string
  | RaisesBaseException string

text \<open>The iterator of observed timeseries that the evaluator consumes.\<close>

datatype ts_iterator = TsIterator nat

text \<open>
  Everything model.py calls and does not define: the model handler; pandas'
  \<open>to_offset\<close>; the two names model.py imports from constants.py that the constants.py
  at hand does not define (the tuple of offset classes \<open>CUSTOMISABLE_FREQUENCIES_OFFSETS\<close>,
  read only through \<open>isinstance\<close>, and the label \<open>METRICS_DATASET.TRAINING_TIME\<close>);
  the estimator's \<open>train\<close>;
  GluonTS' \<open>make_evaluation_predictions\<close> and \<open>Evaluator\<close>; the successive readings of
  \<open>perf_counter\<close>; \<open>round(x, 2)\<close> on floats; \<open>repr\<close> of a finite float;
  \<open>multiprocessing.cpu_count\<close>; and the helpers of gluonts_forecasts/utils.py. Where
  one of them can raise, \<open>Inl\<close> carries the text of the exception.
\<close>

record 'v env =
  handler :: model_handler
  to_offset :: "string \<Rightarrow> string + offset"
  isinstance_CUSTOMISABLE_FREQUENCIES_OFFSETS :: "offset \<Rightarrow> bool"
  TRAINING_TIME :: string
  estimator_train :: "estimator \<Rightarrow> 'v list_dataset \<Rightarrow> training_outcome"
  make_evaluation_predictions ::
    "'v list_dataset \<Rightarrow> predictor \<Rightarrow> nat \<Rightarrow> string + (forecast list \<times> ts_iterator)"
  evaluator ::
    "nat \<Rightarrow> ts_iterator \<Rightarrow> forecast list \<Rightarrow> nat
       \<Rightarrow> string + ((string \<times> 'v cell) list \<times> 'v dataframe)"
  cpu_count :: nat
  clock :: "nat \<Rightarrow> real"
  round2 :: "real \<Rightarrow> real"
  float_repr :: "real \<Rightarrow> string"
  quantile_forecasts_series :: "forecast \<Rightarrow> real \<Rightarrow> string \<Rightarrow> series"
  concat_timeseries_per_identifiers ::
    "((string \<times> 'v) list option \<times> series list) list \<Rightarrow> string + 'v dataframe list"
  concat_all_timeseries :: "'v dataframe list \<Rightarrow> string + 'v dataframe"

text \<open>An exception raised outside model.py passes through it as it is.\<close>

definition external :: "string + 'a \<Rightarrow> error + 'a" where
  "external r = (case r of Inl s \<Rightarrow> Inl (ExternalError s) | Inr x \<Rightarrow> Inr x)"

subsection \<open>\<open>json.dumps\<close> of the standard library\<close>

text \<open>
  \<open>json.dumps(obj)\<close> with its default arguments, which is how model.py calls it.
  Values here are finite trees, so that a container that contains itself, on which
  \<open>json.dumps\<close> raises ValueError, does not occur.
\<close>

text \<open>\<open>str\<close> of an integer: its decimal digits after the sign.\<close>

definition digit_char :: "nat \<Rightarrow> char" where
  "digit_char d = ''0123456789'' ! d"

fun digits :: "nat \<Rightarrow> string" where
  "digits n = (if n < 10 then [digit_char n] else digits (n div 10) @ [digit_char (n mod 10)])"

declare digits.simps [simp del]

definition str_int :: "int \<Rightarrow> string" where
  "str_int n = (if n < 0 then CHR ''-'' # digits (nat (- n)) else digits (nat n))"

text \<open>
  A string between double quotes: a quote, a backslash and the control characters
  that have a short escape get it, every other character below \<open>0x20\<close> or above
  \<open>0x7E\<close> becomes a backslash, \<open>u00\<close> and its two lowercase hexadecimal digits
  (\<open>ensure_ascii\<close> is on), and the rest stand for themselves.
\<close>

definition hex_char :: "nat \<Rightarrow> char" where
  "hex_char d = ''0123456789abcdef'' ! d"

definition escape_char :: "char \<Rightarrow> string" where
  "escape_char c =
     (if c = CHR 0x22 then [CHR 0x5C, CHR 0x22]
      else if c = CHR 0x5C then [CHR 0x5C, CHR 0x5C]
      else if c = CHR 0x0A then [CHR 0x5C, CHR ''n'']
      else if c = CHR 0x0D then [CHR 0x5C, CHR ''r'']
      else if c = CHR 0x09 then [CHR 0x5C, CHR ''t'']
      else if c = CHR 0x08 then [CHR 0x5C, CHR ''b'']
      else if c = CHR 0x0C then [CHR 0x5C, CHR ''f'']
      else if (of_char c :: nat) < 0x20 \<or> 0x7E < (of_char c :: nat)
      then [CHR 0x5C, CHR ''u'', CHR ''0'', CHR ''0'',
            hex_char (of_char c div 16), hex_char (of_char c mod 16)]
      else [c])"

definition encode_string :: "string \<Rightarrow> string" where
  "encode_string s = CHR 0x22 # concat (map escape_char s) @ [CHR 0x22]"

text \<open>\<open>sep.join(xs)\<close>\<close>

fun join :: "string \<Rightarrow> string list \<Rightarrow> string" where
  "join sep [] = []"
| "join sep [x] = x"
| "join sep (x # y # ys) = x @ sep @ join sep (y # ys)"

text \<open>
  A float is written by \<open>float.__repr__\<close> when finite; \<open>allow_nan\<close> is on, so the
  special values are written as the names below.
\<close>

fun float_str :: "(real \<Rightarrow> string) \<Rightarrow> pyfloat \<Rightarrow> string" where
  "float_str R (Finite r) = R r"
| "float_str R NaN = ''NaN''"
| "float_str R Infinity = ''Infinity''"
| "float_str R NegInfinity = ''-Infinity''"

text \<open>A key that is not a string is turned into one.\<close>

fun key_name :: "(real \<Rightarrow> string) \<Rightarrow> pykey \<Rightarrow> string" where
  "key_name R (KeyStr s) = s"
| "key_name R (KeyInt n) = str_int n"
| "key_name R (KeyFloat f) = float_str R f"
| "key_name R (KeyBool b) = (if b then ''true'' else ''false'')"
| "key_name R KeyNone = ''null''"
| "key_name R (KeyObject d) = []"

text \<open>
  The text of a value, with the default separators: a comma and a space between
  items, a colon and a space after a key. A key or a
  value of another class has no text: \<open>json.dumps\<close> raises TypeError on meeting one.
\<close>

fun encode :: "(real \<Rightarrow> string) \<Rightarrow> pyvalue \<Rightarrow> string" where
  "encode R PNone = ''null''"
| "encode R (PBool b) = (if b then ''true'' else ''false'')"
| "encode R (PInt n) = str_int n"
| "encode R (PFloat f) = float_str R f"
| "encode R (PStr s) = encode_string s"
| "encode R (PList vs) = ''['' @ join '', '' (map (encode R) vs) @ '']''"
| "encode R (PDict kvs) =
     ''{'' @ join '', '' (map (\<lambda>(k, v). encode_string (key_name R k) @ '': '' @ encode R v) kvs)
     @ ''}''"
| "encode R (PObject d) = []"

text \<open>The values \<open>json.dumps\<close> can encode.\<close>

fun serialisable_key :: "pykey \<Rightarrow> bool" where
  "serialisable_key (KeyObject d) = False"
| "serialisable_key k = True"

fun serialisable :: "pyvalue \<Rightarrow> bool" where
  "serialisable (PObject d) = False"
| "serialisable (PList vs) = list_all serialisable vs"
| "serialisable (PDict kvs) = list_all (\<lambda>(k, v). serialisable_key k \<and> serialisable v) kvs"
| "serialisable v = True"

definition json_dumps :: "'v env \<Rightarrow> pyvalue \<Rightarrow> error + string" where
  "json_dumps E obj = (if serialisable obj then Inr (encode (float_repr E) obj) else Inl TypeError)"

section \<open>The Model class (gluonts_forecasts/model.py)\<close>

record model =
  model_name :: string
  model_parameters :: pyvalue
  custom_frequency :: string
  frequency :: string
  prediction_length :: int
  epoch :: int
  use_external_features :: bool
  use_seasonality :: bool
  mxnet_context :: "mxnet_context option"
  estimator_kwargs :: kwargs
  batch_size :: "int option"
  num_batches_per_epoch :: "int option"
  trainer :: "trainer option"
  season_length :: "int option"
  estimator :: "estimator option"
  predictor :: "predictor option"
  evaluation_time :: real
  retraining_time :: real

subsection \<open>\<open>__init__\<close>\<close>

text \<open>
  \<open>s.split(sep)\<close> for a one-character separator: the pieces between the separators,
  never an empty list.
\<close>

fun py_split :: "char \<Rightarrow> string \<Rightarrow> string list" where
  "py_split sep [] = [[]]"
| "py_split sep (c # cs) =
     (if c = sep then [] # py_split sep cs
      else (case py_split sep cs of
              [] \<Rightarrow> [[c]]
            | w # ws \<Rightarrow> (c # w) # ws))"

text \<open>\<open>xs[0]\<close>\<close>

definition item0 :: "'a list \<Rightarrow> error + 'a" where
  "item0 xs = (case xs of [] \<Rightarrow> Inl IndexError | x # _ \<Rightarrow> Inr x)"

text \<open>
  \<open>frequency if not isinstance(to_offset(frequency), CUSTOMISABLE_FREQUENCIES_OFFSETS)
    else to_offset(frequency).name.split("-")[0]\<close>
\<close>

definition translate_frequency :: "'v env \<Rightarrow> string \<Rightarrow> error + string" where
  "translate_frequency E freq =
     (case external (to_offset E freq) of
        Inl e \<Rightarrow> Inl e
      | Inr off \<Rightarrow>
          if \<not> isinstance_CUSTOMISABLE_FREQUENCIES_OFFSETS E off then Inr freq
          else (case external (to_offset E freq) of
                  Inl e \<Rightarrow> Inl e
                | Inr off' \<Rightarrow> item0 (py_split CHR ''-'' (offset_name off'))))"

text \<open>
  The keyword arguments of the trainer: \<open>{"ctx": ..., "epochs": ...}\<close>, updated with
  \<open>batch_size\<close> and \<open>num_batches_per_epoch\<close> when these are not \<open>None\<close>.
\<close>

definition trainer_kwargs ::
  "mxnet_context option \<Rightarrow> int \<Rightarrow> int option \<Rightarrow> int option \<Rightarrow> kwargs" where
  "trainer_kwargs ctx ep bs nbpe =
     (let tkw0 = [(''ctx'', KCtx ctx), (''epochs'', KInt ep)];
          tkw1 = (case bs of None \<Rightarrow> tkw0
                  | Some b \<Rightarrow> dict_set ''batch_size'' (KInt b) tkw0)
      in case nbpe of None \<Rightarrow> tkw1
         | Some n \<Rightarrow> dict_set ''num_batches_per_epoch'' (KInt n) tkw1)"

text \<open>
  \<open>self.estimator_kwargs\<close> as the constructor builds it: \<open>freq\<close> and
  \<open>prediction_length\<close>, then \<open>trainer\<close>, \<open>season_length\<close> and \<open>use_feat_dynamic_real\<close>
  under their conditions.
\<close>

definition build_estimator_kwargs ::
  "string \<Rightarrow> int \<Rightarrow> trainer option \<Rightarrow> bool \<Rightarrow> int option \<Rightarrow> bool \<Rightarrow> kwargs" where
  "build_estimator_kwargs freq' pl tr use_seas sl use_ext' =
     (let ekw0 = [(''freq'', KStr freq'), (''prediction_length'', KInt pl)];
          ekw1 = (case tr of None \<Rightarrow> ekw0
                  | Some t \<Rightarrow> dict_set ''trainer'' (KTrainer t) ekw0);
          ekw2 = (if use_seas \<and> sl \<noteq> None
                  then dict_set ''season_length'' (KInt (the sl)) ekw1 else ekw1)
      in if use_ext'
         then dict_set ''use_feat_dynamic_real'' (KBool True) ekw2 else ekw2)"

text \<open>
  The constructor. Its arguments are, in order: \<open>model_name\<close>, \<open>model_parameters\<close>,
  \<open>frequency\<close>, \<open>prediction_length\<close>, \<open>epoch\<close>, \<open>use_external_features\<close>, \<open>batch_size\<close>,
  \<open>num_batches_per_epoch\<close>, \<open>season_length\<close>, \<open>mxnet_context\<close>.
\<close>

definition init ::
  "'v env \<Rightarrow> string \<Rightarrow> pyvalue \<Rightarrow> string \<Rightarrow> int \<Rightarrow> int \<Rightarrow> bool
     \<Rightarrow> int option \<Rightarrow> int option \<Rightarrow> int option \<Rightarrow> mxnet_context option
     \<Rightarrow> error + model" where
  "init E name params freq pl ep use_ext bs nbpe sl ctx =
     (case translate_frequency E freq of
        Inl e \<Rightarrow> Inl e
      | Inr freq' \<Rightarrow>
     let H = handler E;
         use_ext' = (use_ext \<and> mh_can_use_external_feature H name);
         use_seas = mh_can_use_seasonality H name
     in (case external (mh_trainer H name (trainer_kwargs ctx ep bs nbpe)) of
           Inl e \<Rightarrow> Inl e
         | Inr tr \<Rightarrow>
     let ctx' = (case tr of None \<Rightarrow> None | Some t \<Rightarrow> ctx);
         ekw = build_estimator_kwargs freq' pl tr use_seas sl use_ext'
     in (case external (mh_estimator H name params ekw) of
           Inl e \<Rightarrow> Inl e
         | Inr est \<Rightarrow>
             Inr \<lparr> model_name = name,
                   model_parameters = params,
                   custom_frequency = freq,
                   frequency = freq',
                   prediction_length = pl,
                   epoch = ep,
                   use_external_features = use_ext',
                   use_seasonality = use_seas,
                   mxnet_context = ctx',
                   estimator_kwargs = ekw,
                   batch_size = bs,
                   num_batches_per_epoch = nbpe,
                   trainer = tr,
                   season_length = sl,
                   estimator = est,
                   predictor = None,
                   evaluation_time = 0,
                   retraining_time = 0 \<rparr>)))"

subsection \<open>Calls into the libraries and the clock\<close>

text \<open>
  The calls that leave model.py are recorded in the order they are made: a call of
  \<open>estimator.train\<close>, of the handler's \<open>predictor\<close> and \<open>estimator\<close>, of
  \<open>make_evaluation_predictions\<close> and of the evaluator. \<open>ticks\<close> counts the readings of
  \<open>perf_counter\<close> so far. Log lines are not modelled.
\<close>

datatype 'v event =
    EstimatorTrain estimator "'v list_dataset"
  | HandlerPredictor kwargs
  | HandlerEstimator kwargs
  | MakeEvaluationPredictions predictor "'v list_dataset"
  | EvaluatorCall "forecast list" nat

record 'v world =
  ticks :: nat
  trace :: "'v event list"

definition emit :: "'v event \<Rightarrow> 'v world \<Rightarrow> 'v world" where
  "emit ev w = w\<lparr>trace := trace w @ [ev]\<rparr>"

definition perf_counter :: "'v env \<Rightarrow> 'v world \<Rightarrow> real \<times> 'v world" where
  "perf_counter E w = (clock E (ticks w), w\<lparr>ticks := Suc (ticks w)\<rparr>)"

subsection \<open>\<open>_train_estimator\<close>\<close>

text \<open>Truth value of an attribute that is \<open>None\<close> or an int.\<close>

definition truthy :: "int option \<Rightarrow> bool" where
  "truthy x = (case x of None \<Rightarrow> False | Some n \<Rightarrow> n \<noteq> 0)"

text \<open>
  \<open>f"GluonTS '{self.model_name}' model crashed during training. Full error: {err}"\<close>
\<close>

definition training_error_message :: "string \<Rightarrow> string \<Rightarrow> string" where
  "training_error_message name err =
     ''GluonTS '' @ [CHR 0x27] @ name @ [CHR 0x27]
       @ '' model crashed during training. Full error: '' @ err"

text \<open>
  The keyword arguments built for the handler's \<open>predictor\<close> when the model has no
  estimator.
\<close>

definition predictor_kwargs :: "'v env \<Rightarrow> model \<Rightarrow> kwargs" where
  "predictor_kwargs E m =
     (let kwargs = [(''freq'', KStr (frequency m)),
                    (''prediction_length'', KInt (prediction_length m))];
          kwargs1 = (if mh_needs_num_samples (handler E) (model_name m)
                     then dict_set ''num_samples'' (KInt 100) kwargs else kwargs)
      in if use_seasonality m \<and> truthy (season_length m)
         then dict_set ''season_length'' (KInt (the (season_length m))) kwargs1
         else kwargs1)"

text \<open>
  The \<open>try\<close> around \<open>self.estimator.train\<close> has the handler \<open>except Exception\<close>: an
  instance of \<open>Exception\<close> becomes a ModelTrainingError, any other exception leaves
  the method as it is.
\<close>

definition train_estimator ::
  "'v env \<Rightarrow> model \<Rightarrow> 'v world \<Rightarrow> 'v list_dataset \<Rightarrow> (error + predictor) \<times> 'v world" where
  "train_estimator E m w train_list_dataset =
     (case estimator m of
        None \<Rightarrow>
          (external (mh_predictor (handler E) (model_name m) (predictor_kwargs E m)),
           emit (HandlerPredictor (predictor_kwargs E m)) w)
      | Some est \<Rightarrow>
          (case estimator_train E est train_list_dataset of
             Trained p \<Rightarrow> Inr p
           | RaisesException err \<Rightarrow>
               Inl (ModelTrainingError (training_error_message (model_name m) err))
           | RaisesBaseException err \<Rightarrow> Inl (ExternalError err),
           emit (EstimatorTrain est train_list_dataset) w))"

subsection \<open>\<open>train\<close>\<close>

text \<open>
  \<open>train\<close> mutates the model; an exception leaves the assignments made before it in
  place, so the model comes back with either outcome.
\<close>

definition train ::
  "'v env \<Rightarrow> model \<Rightarrow> 'v world \<Rightarrow> 'v list_dataset \<Rightarrow> bool
     \<Rightarrow> (error + unit) \<times> model \<times> 'v world" where
  "train E m w train_list_dataset reinit =
     (let (start, w1) = perf_counter E w;
          (r, m1, w2) =
            (if reinit
             then (case external (mh_estimator (handler E) (model_name m) (model_parameters m)
                          (estimator_kwargs m)) of
                     Inl e \<Rightarrow> (Inl e, m, emit (HandlerEstimator (estimator_kwargs m)) w1)
                   | Inr est \<Rightarrow>
                       (Inr (), m\<lparr>estimator := est\<rparr>,
                        emit (HandlerEstimator (estimator_kwargs m)) w1))
             else (Inr (), m, w1))
      in case r of
           Inl e \<Rightarrow> (Inl e, m1, w2)
         | Inr _ \<Rightarrow>
             (case train_estimator E m1 w2 train_list_dataset of
                (Inl e, w3) \<Rightarrow> (Inl e, m1, w3)
              | (Inr p, w3) \<Rightarrow>
                  let m2 = m1\<lparr>predictor := Some p\<rparr>;
                      (t, w4) = perf_counter E w3
                  in (Inr (), m2\<lparr>retraining_time := t - start\<rparr>, w4)))"

subsection \<open>\<open>_make_evaluation_predictions\<close>\<close>

definition make_evaluation_predictions' ::
  "'v env \<Rightarrow> 'v world \<Rightarrow> predictor \<Rightarrow> 'v list_dataset
     \<Rightarrow> (error + ((string \<times> 'v cell) list \<times> 'v dataframe \<times> forecast list)) \<times> 'v world" where
  "make_evaluation_predictions' E w p test_list_dataset =
     (let w1 = emit (MakeEvaluationPredictions p test_list_dataset) w
      in case external (make_evaluation_predictions E test_list_dataset p 100) of
           Inl e \<Rightarrow> (Inl e, w1)
         | Inr (forecasts, ts_it) \<Rightarrow>
             let n = length test_list_dataset;
                 w2 = emit (EvaluatorCall forecasts n) w1
             in (case external (evaluator E (min 2 (cpu_count E)) ts_it forecasts n) of
                   Inl e \<Rightarrow> (Inl e, w2)
                 | Inr (agg_metrics, item_metrics) \<Rightarrow>
                     (Inr (agg_metrics, item_metrics, forecasts), w2)))"

subsection \<open>\<open>_get_model_parameters_json\<close>\<close>

text \<open>
  \<open>round(x)\<close> on a float: the nearest integer, a tie going to the even one. The
  quotient \<open>a / b\<close> of two lengths is taken exactly.
\<close>

definition py_round :: "real \<Rightarrow> int" where
  "py_round x =
     (let f = \<lfloor>x\<rfloor>; d = x - of_int f
      in if d < 1 / 2 then f
         else if 1 / 2 < d then f + 1
         else if even f then f else f + 1)"

definition py_truediv :: "nat \<Rightarrow> nat \<Rightarrow> error + real" where
  "py_truediv a b = (if b = 0 then Inl ZeroDivisionError else Inr (real a / real b))"

definition opt_int :: "int option \<Rightarrow> pyvalue" where
  "opt_int x = (case x of None \<Rightarrow> PNone | Some n \<Rightarrow> PInt n)"

text \<open>The dict that is serialised, before \<open>json.dumps\<close>.\<close>

definition model_params_dict ::
  "'v env \<Rightarrow> model \<Rightarrow> 'v list_dataset \<Rightarrow> error + (string \<times> pyvalue) list" where
  "model_params_dict E m train_list_dataset =
     (let timeseries_number = length train_list_dataset;
          timeseries_total_length = sum_list (map (\<lambda>ts. length (target ts)) train_list_dataset)
      in case py_truediv timeseries_total_length timeseries_number of
           Inl e \<Rightarrow> Inl e
         | Inr q \<Rightarrow>
             let p0 = [(''model_name'', PStr (mh_get_label (handler E) (model_name m))),
                       (''frequency'', PStr (frequency m)),
                       (''prediction_length'', PInt (prediction_length m)),
                       (''use_external_features'', PBool (use_external_features m)),
                       (''timeseries_number'', PInt (int timeseries_number)),
                       (''timeseries_average_length'', PInt (py_round q)),
                       (''model_parameters'', model_parameters m)];
                 p1 = (if trainer m \<noteq> None
                       then dict_set ''num_batches_per_epoch'' (opt_int (num_batches_per_epoch m))
                              (dict_set ''batch_size'' (opt_int (batch_size m))
                                 (dict_set ''epoch'' (PInt (epoch m)) p0))
                       else p0);
                 p2 = (if use_seasonality m \<and> season_length m \<noteq> None
                       then dict_set ''season_length'' (PInt (the (season_length m))) p1
                       else p1);
                 p3 = (case mxnet_context m of
                         None \<Rightarrow> p2
                       | Some c \<Rightarrow> dict_set ''mxnet.context'' (PStr (str_context c)) p2)
             in Inr p3)"

text \<open>The keys of \<open>model_params\<close> are strings.\<close>

definition get_model_parameters_json ::
  "'v env \<Rightarrow> model \<Rightarrow> 'v list_dataset \<Rightarrow> error + string" where
  "get_model_parameters_json E m train_list_dataset =
     (case model_params_dict E m train_list_dataset of
        Inl e \<Rightarrow> Inl e
      | Inr model_params \<Rightarrow> json_dumps E (PDict (map (\<lambda>(k, v). (KeyStr k, v)) model_params)))"

subsection \<open>The pandas operations \<open>_format_metrics\<close> uses\<close>

text \<open>\<open>df[c] = v\<close> for a scalar \<open>v\<close>: every row gets \<open>v\<close>; a new label goes last.\<close>

definition df_set_scalar :: "string \<Rightarrow> 'v cell \<Rightarrow> 'v dataframe \<Rightarrow> 'v dataframe" where
  "df_set_scalar c v df =
     \<lparr> df_columns = (if c \<in> set (df_columns df) then df_columns df else df_columns df @ [c]),
       df_rows = map (\<lambda>r. r(c := v)) (df_rows df) \<rparr>"

text \<open>
  \<open>df[c] = vs\<close> for a list \<open>vs\<close>: a frame without rows takes its rows from a non-empty
  list (the other cells are NaN); otherwise the lengths must agree, or pandas raises
  ValueError.
\<close>

definition df_set_list :: "string \<Rightarrow> 'v cell list \<Rightarrow> 'v dataframe \<Rightarrow> error + 'v dataframe" where
  "df_set_list c vs df =
     (let cols = (if c \<in> set (df_columns df) then df_columns df else df_columns df @ [c])
      in if length (df_rows df) = 0 \<and> 0 < length vs
         then Inr \<lparr> df_columns = cols, df_rows = map (\<lambda>v. (\<lambda>_. CNaN)(c := v)) vs \<rparr>
         else if length vs \<noteq> length (df_rows df) then Inl ValueError
         else Inr \<lparr> df_columns = cols,
                    df_rows = map (\<lambda>(r, v). r(c := v)) (zip (df_rows df) vs) \<rparr>)"

text \<open>
  \<open>df.append(d, ignore_index=True)\<close> for a dict \<open>d\<close>: one more row; the labels of \<open>d\<close>
  that the frame lacks become columns after the frame's own (pandas orders these new
  labels; \<open>_format_metrics\<close> selects the columns anew right after), NaN where a row
  has no value.
\<close>

definition df_append :: "(string \<times> 'v cell) list \<Rightarrow> 'v dataframe \<Rightarrow> 'v dataframe" where
  "df_append d df =
     \<lparr> df_columns = df_columns df @ filter (\<lambda>k. k \<notin> set (df_columns df)) (map fst d),
       df_rows = map (\<lambda>r c. if c \<in> set (df_columns df) then r c else CNaN) (df_rows df)
                 @ [\<lambda>c. case map_of d c of Some v \<Rightarrow> v | None \<Rightarrow> CNaN] \<rparr>"

text \<open>\<open>df[cs]\<close> for a list of labels: those columns in that order, KeyError if one is missing.\<close>

definition df_select :: "string list \<Rightarrow> 'v dataframe \<Rightarrow> error + 'v dataframe" where
  "df_select cs df =
     (case filter (\<lambda>c. c \<notin> set (df_columns df)) cs of
        [] \<Rightarrow> Inr \<lparr> df_columns = cs, df_rows = df_rows df \<rparr>
      | c # _ \<Rightarrow> Inl (KeyError c))"

subsection \<open>\<open>_format_metrics\<close>\<close>

definition IDENTIFIERS :: string where
  "IDENTIFIERS = ''identifiers''"

text \<open>
  The inner loop, for one timeseries:
  \<open>identifiers_values[c] += [univariate_timeseries["identifiers"][c]]\<close> for each
  identifier column \<open>c\<close>.
\<close>

fun append_identifiers ::
  "string list \<Rightarrow> 'v timeseries \<Rightarrow> (string \<times> 'v list) list \<Rightarrow> error + (string \<times> 'v list) list" where
  "append_identifiers [] ts vals = Inr vals"
| "append_identifiers (c # cs) ts vals =
     (case map_of vals c of
        None \<Rightarrow> Inl (KeyError c)
      | Some l \<Rightarrow>
          (case identifiers ts of
             None \<Rightarrow> Inl (KeyError IDENTIFIERS)
           | Some d \<Rightarrow>
               (case map_of d c of
                  None \<Rightarrow> Inl (KeyError c)
                | Some v \<Rightarrow> append_identifiers cs ts (dict_set c (l @ [v]) vals))))"

text \<open>The loop over \<open>train_list_dataset.list_data\<close>.\<close>

fun collect_columns ::
  "string list \<Rightarrow> 'v list_dataset \<Rightarrow> string list \<Rightarrow> (string \<times> 'v list) list
     \<Rightarrow> error + (string list \<times> (string \<times> 'v list) list)" where
  "collect_columns cols [] target_columns vals = Inr (target_columns, vals)"
| "collect_columns cols (ts # rest) target_columns vals =
     (case append_identifiers cols ts vals of
        Inl e \<Rightarrow> Inl e
      | Inr vals' \<Rightarrow> collect_columns cols rest (target_columns @ [target_name ts]) vals')"

text \<open>
  The second loop over the identifier columns: \<open>item_metrics[c] = identifiers_values[c]\<close>
  and \<open>agg_metrics[c] = "aggregated"\<close>.
\<close>

fun set_identifiers ::
  "string list \<Rightarrow> (string \<times> 'v list) list \<Rightarrow> 'v dataframe \<Rightarrow> (string \<times> 'v cell) list
     \<Rightarrow> error + ('v dataframe \<times> (string \<times> 'v cell) list)" where
  "set_identifiers [] vals item agg = Inr (item, agg)"
| "set_identifiers (c # cs) vals item agg =
     (case map_of vals c of
        None \<Rightarrow> Inl (KeyError c)
      | Some l \<Rightarrow>
          (case df_set_list c (map CId l) item of
             Inl e \<Rightarrow> Inl e
           | Inr item' \<Rightarrow> set_identifiers cs vals item' (dict_set c (CStr AGGREGATED_ROW) agg)))"

text \<open>\<open>univariate_timeseries["identifiers"][c]\<close>, where it is defined.\<close>

definition identifier_value :: "'v timeseries \<Rightarrow> string \<Rightarrow> 'v" where
  "identifier_value ts c = the (map_of (the (identifiers ts)) c)"

text \<open>The labels selected for the result, before \<open>model_params\<close> is added.\<close>

definition selected_columns :: "'v env \<Rightarrow> string list \<Rightarrow> string list" where
  "selected_columns E identifiers_columns =
     [TARGET_COLUMN] @ identifiers_columns @ [MODEL_COLUMN] @ metrics_keys @ [TRAINING_TIME E]"

definition format_metrics ::
  "'v env \<Rightarrow> model \<Rightarrow> (string \<times> 'v cell) list \<Rightarrow> 'v dataframe \<Rightarrow> 'v list_dataset
     \<Rightarrow> error + ('v dataframe \<times> string list)" where
  "format_metrics E m agg_metrics item_metrics train_list_dataset =
     (let label = mh_get_label (handler E) (model_name m);
          item1 = df_set_scalar MODEL_COLUMN (CStr label) item_metrics;
          agg1 = dict_set MODEL_COLUMN (CStr label) agg_metrics
      in case item0 train_list_dataset of
           Inl e \<Rightarrow> Inl e
         | Inr ts0 \<Rightarrow>
      let identifiers_columns = (case identifiers ts0 of Some d \<Rightarrow> map fst d | None \<Rightarrow> []);
          identifiers_values = foldl (\<lambda>d c. dict_set c [] d) [] identifiers_columns
      in case collect_columns identifiers_columns train_list_dataset [] identifiers_values of
           Inl e \<Rightarrow> Inl e
         | Inr (target_columns, identifiers_values') \<Rightarrow>
      case df_set_list TARGET_COLUMN (map CStr target_columns) item1 of
           Inl e \<Rightarrow> Inl e
         | Inr item2 \<Rightarrow>
      let agg2 = dict_set TARGET_COLUMN (CStr AGGREGATED_ROW) agg1;
          agg3 = dict_set (TRAINING_TIME E)
                   (CNum (round2 E (evaluation_time m + retraining_time m))) agg2
      in case set_identifiers identifiers_columns identifiers_values' item2 agg3 of
           Inl e \<Rightarrow> Inl e
         | Inr (item3, agg4) \<Rightarrow>
      case df_select (selected_columns E identifiers_columns) (df_append agg4 item3) of
           Inl e \<Rightarrow> Inl e
         | Inr metrics \<Rightarrow>
      case get_model_parameters_json E m train_list_dataset of
           Inl e \<Rightarrow> Inl e
         | Inr js \<Rightarrow>
             Inr (df_set_scalar MODEL_PARAMETERS (CStr js) metrics, identifiers_columns))"

subsection \<open>\<open>_compute_median_forecasts_timeseries\<close>\<close>

text \<open>
  The key of a timeseries in the result: \<open>tuple(sorted(identifiers.items()))\<close>, or
  \<open>None\<close> without identifiers.
\<close>

definition timeseries_identifier_key ::
  "('v::linorder) timeseries \<Rightarrow> (string \<times> 'v) list option" where
  "timeseries_identifier_key ts =
     (case identifiers ts of Some d \<Rightarrow> Some (sort d) | None \<Rightarrow> None)"

text \<open>
  The median series of forecast \<open>i\<close>, renamed to
  \<open>f"{self.model_name}_{train_list_dataset.list_data[i]['target_name']}"\<close>.
\<close>

definition median_series :: "'v env \<Rightarrow> model \<Rightarrow> forecast \<Rightarrow> 'v timeseries \<Rightarrow> series" where
  "median_series E m sample_forecasts ts =
     (quantile_forecasts_series E sample_forecasts (1 / 2) (custom_frequency m))
       \<lparr> series_name := model_name m @ ''_'' @ target_name ts \<rparr>"

text \<open>The loop over \<open>enumerate(forecasts_list)\<close>, from index \<open>i\<close> on.\<close>

fun median_loop ::
  "('v::linorder) env \<Rightarrow> model \<Rightarrow> 'v list_dataset \<Rightarrow> nat \<Rightarrow> forecast list
     \<Rightarrow> ((string \<times> 'v) list option \<times> series list) list
     \<Rightarrow> error + ((string \<times> 'v) list option \<times> series list) list" where
  "median_loop E m ds i [] acc = Inr acc"
| "median_loop E m ds i (f # fs) acc =
     (if i < length ds
      then let ts = ds ! i;
               series = median_series E m f ts;
               key = timeseries_identifier_key ts
           in median_loop E m ds (Suc i) fs
                (case map_of acc key of
                   Some l \<Rightarrow> dict_set key (l @ [series]) acc
                 | None \<Rightarrow> dict_set key [series] acc)
      else Inl IndexError)"

definition compute_median_forecasts_timeseries ::
  "('v::linorder) env \<Rightarrow> model \<Rightarrow> forecast list \<Rightarrow> 'v list_dataset
     \<Rightarrow> error + ((string \<times> 'v) list option \<times> series list) list" where
  "compute_median_forecasts_timeseries E m forecasts_list train_list_dataset =
     median_loop E m train_list_dataset 0 forecasts_list []"

text \<open>
  The median series of the forecasts whose timeseries has the key \<open>k\<close>, in the order
  of the dataset.
\<close>

definition series_of_key ::
  "('v::linorder) env \<Rightarrow> model \<Rightarrow> forecast list \<Rightarrow> 'v list_dataset
     \<Rightarrow> (string \<times> 'v) list option \<Rightarrow> series list" where
  "series_of_key E m forecasts_list ds k =
     map (\<lambda>(f, ts). median_series E m f ts)
       (filter (\<lambda>(f, ts). timeseries_identifier_key ts = k) (zip forecasts_list ds))"

subsection \<open>\<open>train_evaluate\<close>\<close>

text \<open>
  The last part of \<open>train_evaluate\<close>, which calls nothing that trains or evaluates
  and leaves the model as it is: the metrics are formatted and, when \<open>make_forecasts\<close>
  is set, the median forecasts are put in one frame. The result is
  \<open>(metrics, identifiers_columns)\<close>, with the forecasts frame as a third component
  when \<open>make_forecasts\<close> is set.
\<close>

definition evaluation_outputs ::
  "('v::linorder) env \<Rightarrow> model \<Rightarrow> (string \<times> 'v cell) list \<Rightarrow> 'v dataframe \<Rightarrow> forecast list
     \<Rightarrow> 'v list_dataset \<Rightarrow> bool
     \<Rightarrow> error + ('v dataframe \<times> string list \<times> 'v dataframe option)" where
  "evaluation_outputs E m agg_metrics item_metrics forecasts train_list_dataset make_forecasts =
     (case format_metrics E m agg_metrics item_metrics train_list_dataset of
        Inl e \<Rightarrow> Inl e
      | Inr (metrics, identifiers_columns) \<Rightarrow>
          if make_forecasts
          then (case compute_median_forecasts_timeseries E m forecasts train_list_dataset of
                  Inl e \<Rightarrow> Inl e
                | Inr median_forecasts_timeseries \<Rightarrow>
             (case external (concat_timeseries_per_identifiers E median_forecasts_timeseries) of
                  Inl e \<Rightarrow> Inl e
                | Inr multiple_df \<Rightarrow>
             (case external (concat_all_timeseries E multiple_df) of
                  Inl e \<Rightarrow> Inl e
                | Inr forecasts_df \<Rightarrow> Inr (metrics, identifiers_columns, Some forecasts_df))))
          else Inr (metrics, identifiers_columns, None))"

text \<open>
  \<open>train_evaluate\<close> itself: the evaluation predictor, the evaluation predictions and
  the elapsed time, the retraining when \<open>retrain\<close> is set, then the outputs.
\<close>

definition train_evaluate ::
  "('v::linorder) env \<Rightarrow> model \<Rightarrow> 'v world \<Rightarrow> 'v list_dataset \<Rightarrow> 'v list_dataset \<Rightarrow> bool \<Rightarrow> bool
     \<Rightarrow> (error + ('v dataframe \<times> string list \<times> 'v dataframe option)) \<times> model \<times> 'v world" where
  "train_evaluate E m w train_list_dataset test_list_dataset make_forecasts retrain =
     (let (start, w1) = perf_counter E w
      in case train_estimator E m w1 train_list_dataset of
           (Inl e, w2) \<Rightarrow> (Inl e, m, w2)
         | (Inr evaluation_predictor, w2) \<Rightarrow>
      (case make_evaluation_predictions' E w2 evaluation_predictor test_list_dataset of
           (Inl e, w3) \<Rightarrow> (Inl e, m, w3)
         | (Inr (agg_metrics, item_metrics, forecasts), w3) \<Rightarrow>
      let (t, w4) = perf_counter E w3;
          m1 = m\<lparr>evaluation_time := t - start\<rparr>
      in (case (if retrain then train E m1 w4 test_list_dataset True else (Inr (), m1, w4)) of
           (Inl e, m2, w5) \<Rightarrow> (Inl e, m2, w5)
         | (Inr _, m2, w5) \<Rightarrow>
             (evaluation_outputs E m2 agg_metrics item_metrics forecasts train_list_dataset
                make_forecasts,
              m2, w5))))"

text \<open>
  The call by which \<open>_train_estimator\<close> gets its predictor for a dataset: the
  estimator's \<open>train\<close> on that dataset, or the handler's \<open>predictor\<close> when the model
  has no estimator.
\<close>

definition training_call :: "'v env \<Rightarrow> model \<Rightarrow> 'v list_dataset \<Rightarrow> 'v event" where
  "training_call E m ds =
     (case estimator m of
        None \<Rightarrow> HandlerPredictor (predictor_kwargs E m)
      | Some est \<Rightarrow> EstimatorTrain est ds)"

section \<open>The train-evaluate recipe (recipe.py)\<close>

text \<open>
  The recipe is a script: a sequence of calls into the Dataiku API, the plugin's I/O
  helpers and the \<open>GlobalModels\<close> class, none of which is defined in it. Each call is a
  step; a step that raises ends the run.
\<close>

datatype output_dataset = EvaluationDataset | EvaluationForecasts

datatype step =
    GetRecipeConfig
  | LoadTrainingConfig
  | GetModelsParameters
  | GetDataframe
  | AssertContinuousTimeColumn
  | NewGlobalModels
  | InitAllModels
  | EvaluateAll
  | FitAll
  | SaveAll
  | GetMetricsDf
  | WriteWithSchema output_dataset
  | CreateMetricsColumnDescription
  | SetColumnDescription output_dataset
  | GetEvaluationForecastsDf
  | CreateEvaluationForecastsColumnDescription

text \<open>
  The calls of the script in order, given the value of \<open>params['make_forecasts']\<close>.
\<close>

definition recipe_script :: "bool \<Rightarrow> step list" where
  "recipe_script make_forecasts =
     [GetRecipeConfig,
      LoadTrainingConfig,
      GetModelsParameters,
      GetDataframe,
      AssertContinuousTimeColumn,
      NewGlobalModels,
      InitAllModels,
      EvaluateAll,
      FitAll,
      SaveAll,
      GetMetricsDf,
      WriteWithSchema EvaluationDataset,
      CreateMetricsColumnDescription,
      SetColumnDescription EvaluationDataset]
     @ (if make_forecasts
        then [GetEvaluationForecastsDf,
              WriteWithSchema EvaluationForecasts,
              CreateEvaluationForecastsColumnDescription,
              SetColumnDescription EvaluationForecasts]
        else [])"

text \<open>
  Running a script: the calls made, and whether the run reached the end. \<open>raises s\<close>
  says that the call \<open>s\<close> raises.
\<close>

fun run_steps :: "(step \<Rightarrow> bool) \<Rightarrow> step list \<Rightarrow> step list \<times> bool" where
  "run_steps raises [] = ([], True)"
| "run_steps raises (s # ss) =
     (if raises s then ([s], False)
      else (case run_steps raises ss of (done_steps, ok) \<Rightarrow> (s # done_steps, ok)))"

definition recipe :: "(step \<Rightarrow> bool) \<Rightarrow> bool \<Rightarrow> step list \<times> bool" where
  "recipe raises make_forecasts = run_steps raises (recipe_script make_forecasts)"

text \<open>\<open>a\<close> is called before the first call of \<open>b\<close>.\<close>

definition called_before :: "'a \<Rightarrow> 'a \<Rightarrow> 'a list \<Rightarrow> bool" where
  "called_before a b xs = (a \<in> set (takeWhile (\<lambda>x. x \<noteq> b) xs))"

section \<open>JSON texts (RFC 8259)\<close>

text \<open>
  What it means for a string to be valid JSON, after the grammar of RFC 8259. A value
  is \<open>null\<close>, \<open>true\<close>, \<open>false\<close>, a number, a string, an array or an object; what a text
  denotes is kept beside it, a number by its token.
\<close>

datatype jvalue =
    JNull
  | JBool bool
  | JNumber string
  | JString string
  | JArray "jvalue list"
  | JObject "(string \<times> jvalue) list"

text \<open>
  \<open>number = [ minus ] int [ frac ] [ exp ]\<close>, where \<open>int\<close> is \<open>0\<close> or digits that do not
  begin with \<open>0\<close>, \<open>frac\<close> is a point and digits, and \<open>exp\<close> is \<open>e\<close> or \<open>E\<close>, an optional
  sign and digits.
\<close>

definition is_digit :: "char \<Rightarrow> bool" where
  "is_digit c = (48 \<le> (of_char c :: nat) \<and> (of_char c :: nat) \<le> 57)"

definition is_ws :: "char \<Rightarrow> bool" where
  "is_ws c = (c = CHR 0x20 \<or> c = CHR 0x09 \<or> c = CHR 0x0A \<or> c = CHR 0x0D)"

definition json_exp :: "string \<Rightarrow> bool" where
  "json_exp s =
     (case s of
        [] \<Rightarrow> True
      | e # r \<Rightarrow>
          (e = CHR ''e'' \<or> e = CHR ''E'')
          \<and> (let r' = (case r of [] \<Rightarrow> []
                        | c # x \<Rightarrow> if c = CHR ''+'' \<or> c = CHR ''-'' then x else r)
             in r' \<noteq> [] \<and> list_all is_digit r'))"

definition json_frac_exp :: "string \<Rightarrow> bool" where
  "json_frac_exp s =
     (case s of
        [] \<Rightarrow> True
      | c # r \<Rightarrow>
          if c = CHR ''.''
          then takeWhile is_digit r \<noteq> [] \<and> json_exp (dropWhile is_digit r)
          else json_exp s)"

definition json_number :: "string \<Rightarrow> bool" where
  "json_number s =
     (let s1 = (case s of [] \<Rightarrow> [] | c # r \<Rightarrow> if c = CHR ''-'' then r else s);
          ip = takeWhile is_digit s1
      in ip \<noteq> [] \<and> (if hd ip = CHR ''0'' then length ip = 1 else True)
         \<and> json_frac_exp (dropWhile is_digit s1))"

text \<open>
  The characters between the quotes of a string, and the string they denote: an
  unescaped character is none of the quote, the backslash and the control characters;
  an escape is one of the eight short ones, or a backslash, \<open>u\<close> and four hexadecimal
  digits (here for the code points below 256, which are the characters of a string
  of this development).
\<close>

definition hex_value :: "char \<Rightarrow> nat option" where
  "hex_value c =
     (let n = (of_char c :: nat)
      in if 48 \<le> n \<and> n \<le> 57 then Some (n - 48)
         else if 97 \<le> n \<and> n \<le> 102 then Some (n - 87)
         else if 65 \<le> n \<and> n \<le> 70 then Some (n - 55)
         else None)"

inductive json_chars :: "string \<Rightarrow> string \<Rightarrow> bool" where
  chars_end: "json_chars [] []"
| chars_plain:
    "0x20 \<le> (of_char c :: nat) \<Longrightarrow> c \<noteq> CHR 0x22 \<Longrightarrow> c \<noteq> CHR 0x5C \<Longrightarrow> json_chars t s
       \<Longrightarrow> json_chars (c # t) (c # s)"
| chars_escape:
    "(e, c) \<in> set [(CHR 0x22, CHR 0x22), (CHR 0x5C, CHR 0x5C), (CHR ''/'', CHR ''/''),
                   (CHR ''b'', CHR 0x08), (CHR ''f'', CHR 0x0C), (CHR ''n'', CHR 0x0A),
                   (CHR ''r'', CHR 0x0D), (CHR ''t'', CHR 0x09)]
       \<Longrightarrow> json_chars t s \<Longrightarrow> json_chars (CHR 0x5C # e # t) (c # s)"
| chars_unicode:
    "hex_value h1 = Some 0 \<Longrightarrow> hex_value h2 = Some 0 \<Longrightarrow> hex_value h3 = Some a
       \<Longrightarrow> hex_value h4 = Some b \<Longrightarrow> (of_char c :: nat) = 16 * a + b \<Longrightarrow> json_chars t s
       \<Longrightarrow> json_chars (CHR 0x5C # CHR ''u'' # h1 # h2 # h3 # h4 # t) (c # s)"

text \<open>Values, the elements of an array and the members of an object.\<close>

inductive json_value :: "string \<Rightarrow> jvalue \<Rightarrow> bool"
  and json_elements :: "string \<Rightarrow> jvalue list \<Rightarrow> bool"
  and json_members :: "string \<Rightarrow> (string \<times> jvalue) list \<Rightarrow> bool" where
  value_null: "json_value ''null'' JNull"
| value_true: "json_value ''true'' (JBool True)"
| value_false: "json_value ''false'' (JBool False)"
| value_number: "json_number s \<Longrightarrow> json_value s (JNumber s)"
| value_string: "json_chars t s \<Longrightarrow> json_value (CHR 0x22 # t @ [CHR 0x22]) (JString s)"
| value_empty_array: "list_all is_ws w \<Longrightarrow> json_value (CHR ''['' # w @ '']'') (JArray [])"
| value_array: "json_elements t vs \<Longrightarrow> json_value (CHR ''['' # t @ '']'') (JArray vs)"
| value_empty_object: "list_all is_ws w \<Longrightarrow> json_value (CHR ''{'' # w @ ''}'') (JObject [])"
| value_object: "json_members t kvs \<Longrightarrow> json_value (CHR ''{'' # t @ ''}'') (JObject kvs)"
| elements_last:
    "list_all is_ws w1 \<Longrightarrow> list_all is_ws w2 \<Longrightarrow> json_value t v
       \<Longrightarrow> json_elements (w1 @ t @ w2) [v]"
| elements_more:
    "list_all is_ws w1 \<Longrightarrow> list_all is_ws w2 \<Longrightarrow> json_value t v \<Longrightarrow> json_elements r vs
       \<Longrightarrow> json_elements (w1 @ t @ w2 @ CHR '','' # r) (v # vs)"
| members_last:
    "list_all is_ws w1 \<Longrightarrow> list_all is_ws w2 \<Longrightarrow> list_all is_ws w3 \<Longrightarrow> list_all is_ws w4
       \<Longrightarrow> json_chars kt k \<Longrightarrow> json_value t v
       \<Longrightarrow> json_members (w1 @ CHR 0x22 # kt @ CHR 0x22 # w2 @ CHR '':'' # w3 @ t @ w4) [(k, v)]"
| members_more:
    "list_all is_ws w1 \<Longrightarrow> list_all is_ws w2 \<Longrightarrow> list_all is_ws w3 \<Longrightarrow> list_all is_ws w4
       \<Longrightarrow> json_chars kt k \<Longrightarrow> json_value t v \<Longrightarrow> json_members r kvs
       \<Longrightarrow> json_members (w1 @ CHR 0x22 # kt @ CHR 0x22 # w2 @ CHR '':'' # w3 @ t @ w4
                          @ CHR '','' # r) ((k, v) # kvs)"

text \<open>\<open>JSON-text = ws value ws\<close>\<close>

inductive json_text :: "string \<Rightarrow> jvalue \<Rightarrow> bool" where
  "list_all is_ws w1 \<Longrightarrow> list_all is_ws w2 \<Longrightarrow> json_value t v \<Longrightarrow> json_text (w1 @ t @ w2) v"

text \<open>The integer that a number token without fraction and exponent denotes.\<close>

definition nat_of_digits :: "string \<Rightarrow> nat" where
  "nat_of_digits s = foldl (\<lambda>a c. 10 * a + (of_char c - 48)) 0 s"

definition int_of_token :: "string \<Rightarrow> int" where
  "int_of_token s =
     (case s of [] \<Rightarrow> 0
      | c # r \<Rightarrow> if c = CHR ''-'' then - int (nat_of_digits r) else int (nat_of_digits s))"

text \<open>The JSON value that the text of a Python value denotes.\<close>

fun to_jvalue :: "(real \<Rightarrow> string) \<Rightarrow> pyvalue \<Rightarrow> jvalue" where
  "to_jvalue R PNone = JNull"
| "to_jvalue R (PBool b) = JBool b"
| "to_jvalue R (PInt n) = JNumber (str_int n)"
| "to_jvalue R (PFloat f) = JNumber (float_str R f)"
| "to_jvalue R (PStr s) = JString s"
| "to_jvalue R (PList vs) = JArray (map (to_jvalue R) vs)"
| "to_jvalue R (PDict kvs) = JObject (map (\<lambda>(k, v). (key_name R k, to_jvalue R v)) kvs)"
| "to_jvalue R (PObject d) = JNull"

text \<open>\<open>NaN\<close>, \<open>Infinity\<close> and \<open>-Infinity\<close> are no JSON numbers.\<close>

fun finite_floats :: "pyvalue \<Rightarrow> bool" where
  "finite_floats (PFloat f) = (case f of Finite r \<Rightarrow> True | _ \<Rightarrow> False)"
| "finite_floats (PList vs) = list_all finite_floats vs"
| "finite_floats (PDict kvs) = list_all (\<lambda>(k, v). finite_floats v) kvs"
| "finite_floats v = True"

text \<open>
  The characters of a text that lie outside its string literals (an unfinished
  literal leaves a quote), and the characters a JSON text can have there.
\<close>

fun bare :: "bool \<Rightarrow> string \<Rightarrow> string" where
  "bare q [] = (if q then [CHR 0x22] else [])"
| "bare False (c # s) = (if c = CHR 0x22 then bare True s else c # bare False s)"
| "bare True [c] = (if c = CHR 0x22 then [] else [CHR 0x22])"
| "bare True (c # d # s) =
     (if c = CHR 0x22 then bare False (d # s)
      else if c = CHR 0x5C then bare True s
      else bare True (d # s))"

definition structural :: "char \<Rightarrow> bool" where
  "structural c = (is_digit c \<or> is_ws c \<or> c \<in> set ''[]{}:,-+.eEnultrfas'')"

section \<open>A concrete setting\<close>

text \<open>
  A handler that knows two models: \<open>deepar\<close>, which has a trainer and an estimator and
  can use external features, and \<open>naive\<close>, which has neither and gets its predictor
  from the handler.
\<close>

definition example_handler :: model_handler where
  "example_handler =
     \<lparr> mh_can_use_external_feature = (\<lambda>n. n = ''deepar''),
       mh_can_use_seasonality = (\<lambda>n. n = ''naive''),
       mh_needs_num_samples = (\<lambda>n. False),
       mh_get_label = (\<lambda>n. n),
       mh_trainer = (\<lambda>n kw. Inr (if n = ''deepar'' then Some (Trainer 0) else None)),
       mh_estimator = (\<lambda>n p kw. Inr (if n = ''deepar'' then Some (Estimator 0) else None)),
       mh_predictor = (\<lambda>n kw. Inr (Predictor 7)) \<rparr>"

text \<open>The evaluator's answer for \<open>n\<close> series: every metric is 1.\<close>

definition example_item_metrics :: "nat \<Rightarrow> string dataframe" where
  "example_item_metrics n =
     \<lparr> df_columns = ''item_id'' # metrics_keys,
       df_rows = replicate n (\<lambda>c. if c \<in> set metrics_keys then CNum 1 else CNaN) \<rparr>"

definition example_agg_metrics :: "(string \<times> string cell) list" where
  "example_agg_metrics = map (\<lambda>k. (k, CNum 1)) metrics_keys"

text \<open>
  Training fails on an empty dataset and otherwise gives a predictor; the clock
  advances by one second at each reading.
\<close>

definition example_env :: "string env" where
  "example_env =
     \<lparr> handler = example_handler,
       to_offset = (\<lambda>s. if s = ''W-MON'' then Inr \<lparr> offset_class = ''Week'', offset_name = ''W-MON'' \<rparr>
                         else if s = ''D'' then Inr \<lparr> offset_class = ''Day'', offset_name = ''D'' \<rparr>
                         else Inl ''Invalid frequency''),
       isinstance_CUSTOMISABLE_FREQUENCIES_OFFSETS = (\<lambda>off. offset_class off = ''Week''),
       TRAINING_TIME = ''training_time'',
       estimator_train = (\<lambda>est ds. if length ds = 0 then RaisesException ''no data''
                                   else Trained (Predictor 1)),
       make_evaluation_predictions =
         (\<lambda>ds p n. Inr (map Forecast [0..<length ds], TsIterator 0)),
       evaluator = (\<lambda>workers ts_it fs n. Inr (example_agg_metrics, example_item_metrics n)),
       cpu_count = 4,
       clock = (\<lambda>n. real n),
       round2 = (\<lambda>x. x),
       float_repr = (\<lambda>r. if r = 1 / 10 then ''0.1'' else ''0.0''),
       quantile_forecasts_series =
         (\<lambda>f q freq. case f of Forecast n \<Rightarrow>
                      \<lparr> series_name = freq, series_values = [real n + q] \<rparr>),
       concat_timeseries_per_identifiers = (\<lambda>d. Inr []),
       concat_all_timeseries = (\<lambda>dfs. Inr \<lparr> df_columns = [], df_rows = [] \<rparr>) \<rparr>"

text \<open>The same setting, but the training is interrupted from the keyboard.\<close>

definition interrupted_env :: "string env" where
  "interrupted_env =
     example_env\<lparr>estimator_train := (\<lambda>est ds. RaisesBaseException ''KeyboardInterrupt'')\<rparr>"

definition example_world :: "string world" where
  "example_world = \<lparr> ticks = 0, trace = [] \<rparr>"

text \<open>Two series of a long-format dataset, and a series without identifiers.\<close>

definition ts_a :: "string timeseries" where
  "ts_a = \<lparr> target_name = ''sales'', target = [1, 2, 3],
            identifiers = Some [(''store'', ''A''), (''item'', ''x'')] \<rparr>"

definition ts_b :: "string timeseries" where
  "ts_b = \<lparr> target_name = ''sales'', target = [4, 5, 6, 7],
            identifiers = Some [(''item'', ''y''), (''store'', ''B'')] \<rparr>"

text \<open>A second target of the first series, its identifiers listed in the other order.\<close>

definition ts_a' :: "string timeseries" where
  "ts_a' = \<lparr> target_name = ''returns'', target = [0, 1, 0],
             identifiers = Some [(''item'', ''x''), (''store'', ''A'')] \<rparr>"

text \<open>The two series with the observations held out for the evaluation.\<close>

definition ts_a_test :: "string timeseries" where
  "ts_a_test = ts_a\<lparr>target := [1, 2, 3, 4, 5]\<rparr>"

definition ts_b_test :: "string timeseries" where
  "ts_b_test = ts_b\<lparr>target := [4, 5, 6, 7, 8, 9]\<rparr>"


definition ts_params_identifier :: "string timeseries" where
  "ts_params_identifier =
     \<lparr> target_name = ''sales'', target = [1, 2],
       identifiers = Some [(''model_params'', ''A'')] \<rparr>"


definition ts_plain :: "string timeseries" where
  "ts_plain = \<lparr> target_name = ''revenue'', target = [1, 2], identifiers = None \<rparr>"

text \<open>
  The two models as their constructor leaves them: \<open>deepar\<close> on weekly data anchored on
  Mondays with external features, \<open>naive\<close> on daily data with a season of seven days.
\<close>

definition deepar_model :: model where
  "deepar_model =
     \<lparr> model_name = ''deepar'',
       model_parameters = PDict [],
       custom_frequency = ''W-MON'',
       frequency = ''W'',
       prediction_length = 2,
       epoch = 10,
       use_external_features = True,
       use_seasonality = False,
       mxnet_context = None,
       estimator_kwargs = [(''freq'', KStr ''W''), (''prediction_length'', KInt 2),
                           (''trainer'', KTrainer (Trainer 0)),
                           (''use_feat_dynamic_real'', KBool True)],
       batch_size = Some 32,
       num_batches_per_epoch = None,
       trainer = Some (Trainer 0),
       season_length = None,
       estimator = Some (Estimator 0),
       predictor = None,
       evaluation_time = 0,
       retraining_time = 0 \<rparr>"

definition naive_model :: model where
  "naive_model =
     \<lparr> model_name = ''naive'',
       model_parameters = PDict [],
       custom_frequency = ''D'',
       frequency = ''D'',
       prediction_length = 2,
       epoch = 10,
       use_external_features = False,
       use_seasonality = True,
       mxnet_context = None,
       estimator_kwargs = [(''freq'', KStr ''D''), (''prediction_length'', KInt 2),
                           (''season_length'', KInt 7)],
       batch_size = None,
       num_batches_per_epoch = None,
       trainer = None,
       season_length = Some 7,
       estimator = None,
       predictor = None,
       evaluation_time = 0,
       retraining_time = 0 \<rparr>"

text \<open>
  Model parameters as the recipe reads them from its settings; a parameter that is a
  NumPy number; and a parameter that is not a number.
\<close>

definition tuned_model :: model where
  "tuned_model =
     deepar_model\<lparr>model_parameters :=
       PDict [(KeyStr ''activated'', PBool True),
              (KeyStr ''kwargs'', PDict [(KeyStr ''dropout_rate'', PFloat (Finite (1 / 10)))])]\<rparr>"

definition numpy_model :: model where
  "numpy_model =
     naive_model\<lparr>model_parameters :=
       PDict [(KeyStr ''kwargs'', PDict [(KeyStr ''scale'', PObject ''numpy.float32'')])]\<rparr>"

definition nan_model :: model where
  "nan_model =
     naive_model\<lparr>model_parameters :=
       PDict [(KeyStr ''kwargs'', PDict [(KeyStr ''scale'', PFloat NaN)])]\<rparr>"

section \<open>Properties\<close>

subsection \<open>Dicts and rounding\<close>

lemma py_round_nearest: "\<bar>real_of_int (py_round x) - x\<bar> \<le> 1 / 2"
  unfolding py_round_def Let_def by (auto simp: abs_if) linarith+

lemma map_of_dict_set: "map_of (dict_set k v d) = (map_of d)(k \<mapsto> v)"
  by (simp add: dict_set_def update_conv')

lemma distinct_dict_set: "distinct (map fst d) \<Longrightarrow> distinct (map fst (dict_set k v d))"
  by (simp add: dict_set_def distinct_update)

lemma model_params_dict_empty: "model_params_dict E m [] = Inl ZeroDivisionError"
  by (simp add: model_params_dict_def py_truediv_def)

lemma model_params_dict_nonempty:
  assumes "ds \<noteq> []"
  shows "\<exists>d. model_params_dict E m ds = Inr d \<and> distinct (map fst d)
     \<and> map_of d ''timeseries_number'' = Some (PInt (int (length ds)))
     \<and> map_of d ''timeseries_average_length'' =
          Some (PInt (py_round (real (sum_list (map (\<lambda>ts. length (target ts)) ds)) / real (length ds))))"
proof -
  from assms obtain d where d: "model_params_dict E m ds = Inr d"
    by (simp add: model_params_dict_def py_truediv_def Let_def)
  have "distinct (map fst d)"
    using d assms
    by (auto simp: model_params_dict_def py_truediv_def Let_def distinct_dict_set
             split: option.splits if_splits)
  moreover have "map_of d ''timeseries_number'' = Some (PInt (int (length ds)))"
    using d assms
    by (auto simp: model_params_dict_def py_truediv_def Let_def map_of_dict_set
             split: option.splits if_splits)
  moreover have "map_of d ''timeseries_average_length'' =
          Some (PInt (py_round (real (sum_list (map (\<lambda>ts. length (target ts)) ds)) / real (length ds))))"
    using d assms
    by (auto simp: model_params_dict_def py_truediv_def Let_def map_of_dict_set
             split: option.splits if_splits)
  ultimately show ?thesis using d by blast
qed

text \<open>
  Every value of \<open>model_params\<close> but the model parameters is a string, an integer, a
  boolean or \<open>None\<close>.
\<close>

lemma model_params_dict_all:
  assumes "model_params_dict E m ds = Inr d"
    and "\<And>s. P (PStr s)" "\<And>n. P (PInt n)" "\<And>b. P (PBool b)" "P PNone"
  shows "list_all (\<lambda>(k, v). P v) d \<longleftrightarrow> P (model_parameters m)"
proof -
  have o: "P (opt_int x)" for x using assms(3,5) by (simp add: opt_int_def split: option.splits)
  from assms(1) show ?thesis
    by (auto simp: model_params_dict_def py_truediv_def Let_def dict_set_def o assms(2-5)
             split: option.splits if_splits)
qed

subsection \<open>The texts that \<open>json.dumps\<close> writes\<close>

text \<open>An integer is written as a JSON number that denotes it.\<close>

lemma below_16:
  "d < 16 \<Longrightarrow> d \<in> {0, 1, 2, 3, 4, 5, 6, 7, 8, 9, 10, 11, 12, 13, 14, 15 :: nat}"
  by simp arith

lemma of_char_digit_char: "d < 10 \<Longrightarrow> (of_char (digit_char d) :: nat) = 48 + d"
  using below_16 [of d] by (auto simp: digit_char_def)

lemma is_digit_digit_char: "d < 10 \<Longrightarrow> is_digit (digit_char d)"
  by (simp add: is_digit_def of_char_digit_char)

lemma digits_all: "list_all is_digit (digits n)"
  by (induction n rule: digits.induct)
     (subst digits.simps, auto simp: is_digit_digit_char)

lemma digits_nonempty: "digits n \<noteq> []"
  by (subst digits.simps) simp

lemma digit_char_zero: "d < 10 \<Longrightarrow> digit_char d = CHR ''0'' \<longleftrightarrow> d = 0"
proof -
  assume d: "d < 10"
  have "digit_char d = CHR ''0'' \<longleftrightarrow> (of_char (digit_char d) :: nat) = of_char (CHR ''0'')"
    by (metis of_char_eq_iff)
  with d show ?thesis by (simp add: of_char_digit_char)
qed

lemma hd_digits: "hd (digits n) = CHR ''0'' \<Longrightarrow> n = 0"
proof (induction n rule: digits.induct)
  case (1 n)
  show ?case
  proof (cases "n < 10")
    case True
    with "1.prems" show ?thesis
      by (subst (asm) digits.simps) (simp add: digit_char_zero)
  next
    case False
    with "1.prems" have "hd (digits (n div 10)) = CHR ''0''"
      by (subst (asm) digits.simps) (simp add: digits_nonempty)
    with "1.IH" False have "n div 10 = 0" by simp
    with False show ?thesis by simp
  qed
qed

lemma digits_zero: "digits 0 = ''0''"
  using digit_char_zero [of 0] by (subst digits.simps) simp

lemma takeWhile_all: "list_all P xs \<Longrightarrow> takeWhile P xs = xs"
  by (induction xs) auto

lemma dropWhile_all: "list_all P xs \<Longrightarrow> dropWhile P xs = []"
  by (induction xs) auto

lemma json_number_digits: "json_number (digits n)"
proof -
  have nm: "hd (digits n) \<noteq> CHR ''-''"
    using digits_all [of n] digits_nonempty [of n]
    by (cases "digits n") (auto simp: is_digit_def)
  have "length (digits n) = 1" if "hd (digits n) = CHR ''0''"
    using hd_digits [OF that] by (simp add: digits_zero)
  then show ?thesis
    using nm digits_nonempty [of n] digits_all [of n]
    by (cases "digits n")
       (auto simp: json_number_def Let_def takeWhile_all dropWhile_all json_frac_exp_def
             simp del: takeWhile.simps dropWhile.simps)
qed

lemma json_number_str_int: "json_number (str_int n)"
proof (cases "n < 0")
  case False
  then show ?thesis by (simp add: str_int_def json_number_digits)
next
  case True
  let ?d = "digits (nat (- n))"
  have "length ?d = 1" if "hd ?d = CHR ''0''"
    using hd_digits [OF that] by (simp add: digits_zero)
  then show ?thesis
    using True digits_nonempty [of "nat (- n)"] digits_all [of "nat (- n)"]
    by (auto simp: str_int_def json_number_def Let_def takeWhile_all dropWhile_all
          json_frac_exp_def)
qed

lemma nat_of_digits_digits: "nat_of_digits (digits n) = n"
proof (induction n rule: digits.induct)
  case (1 n)
  show ?case
  proof (cases "n < 10")
    case True
    then show ?thesis
      by (subst digits.simps) (simp add: nat_of_digits_def of_char_digit_char)
  next
    case False
    with "1.IH" have "nat_of_digits (digits (n div 10)) = n div 10" by simp
    with False show ?thesis
      by (subst digits.simps) (simp add: nat_of_digits_def of_char_digit_char)
  qed
qed

lemma int_of_token_str_int: "int_of_token (str_int n) = n"
proof (cases "n < 0")
  case True
  then show ?thesis by (simp add: str_int_def int_of_token_def nat_of_digits_digits)
next
  case False
  have "hd (digits (nat n)) \<noteq> CHR ''-''"
    using digits_all [of "nat n"] digits_nonempty [of "nat n"]
    by (cases "digits (nat n)") (auto simp: is_digit_def)
  with False digits_nonempty [of "nat n"] nat_of_digits_digits [of "nat n"] show ?thesis
    by (cases "digits (nat n)") (auto simp: str_int_def int_of_token_def)
qed

text \<open>An escaped string is a JSON string that denotes the string.\<close>

lemma hex_value_hex_char: "d < 16 \<Longrightarrow> hex_value (hex_char d) = Some d"
  using below_16 [of d] by (auto simp: hex_value_def hex_char_def)

lemma hex_value_zero: "hex_value CHR ''0'' = Some 0"
  by (simp add: hex_value_def)

lemma of_char_less_256: "(of_char c :: nat) < 256"
  by (cases c) simp

lemma json_chars_unicode_escape:
  assumes "json_chars t s"
  shows "json_chars (CHR 0x5C # CHR ''u'' # CHR ''0'' # CHR ''0'' # hex_char (of_char c div 16)
                        # hex_char (of_char c mod 16) # t) (c # s)"
proof -
  have d: "(of_char c :: nat) div 16 < 16" "(of_char c :: nat) mod 16 < 16"
    using of_char_less_256 [of c] by (simp_all add: less_mult_imp_div_less)
  show ?thesis
    by (rule chars_unicode [OF hex_value_zero hex_value_zero hex_value_hex_char [OF d(1)]
          hex_value_hex_char [OF d(2)] _ assms]) simp
qed

lemma json_chars_short_escapes:
  assumes "json_chars t s"
  shows "json_chars (CHR 0x5C # CHR 0x22 # t) (CHR 0x22 # s)"
    and "json_chars (CHR 0x5C # CHR 0x5C # t) (CHR 0x5C # s)"
    and "json_chars (CHR 0x5C # CHR ''n'' # t) (CHR 0x0A # s)"
    and "json_chars (CHR 0x5C # CHR ''r'' # t) (CHR 0x0D # s)"
    and "json_chars (CHR 0x5C # CHR ''t'' # t) (CHR 0x09 # s)"
    and "json_chars (CHR 0x5C # CHR ''b'' # t) (CHR 0x08 # s)"
    and "json_chars (CHR 0x5C # CHR ''f'' # t) (CHR 0x0C # s)"
  by (rule chars_escape [OF _ assms], simp)+

lemma json_chars_escape_char: "json_chars t s \<Longrightarrow> json_chars (escape_char c @ t) (c # s)"
  unfolding escape_char_def
  by (simp add: json_chars_short_escapes json_chars_unicode_escape chars_plain not_less)

lemma json_chars_escape: "json_chars (concat (map escape_char s)) s"
  by (induction s) (auto intro: chars_end json_chars_escape_char)

lemma json_value_encode_string: "json_value (encode_string s) (JString s)"
  unfolding encode_string_def by (rule value_string [OF json_chars_escape])

text \<open>Lists and dicts are written as JSON arrays and objects.\<close>

lemma json_elements_ws: "list_all is_ws w \<Longrightarrow> json_elements r vs \<Longrightarrow> json_elements (w @ r) vs"
proof (cases rule: json_elements.cases, assumption)
  fix w1 w2 t v
  assume w: "list_all is_ws w" and h: "r = w1 @ t @ w2" "vs = [v]" "list_all is_ws w1"
    "list_all is_ws w2" "json_value t v"
  from w h(3) have "list_all is_ws (w @ w1)" by simp
  from elements_last [OF this h(4,5)] h(1,2) show ?thesis by simp
next
  fix w1 w2 t v r' vs'
  assume w: "list_all is_ws w" and h: "r = w1 @ t @ w2 @ CHR '','' # r'" "vs = v # vs'"
    "list_all is_ws w1" "list_all is_ws w2" "json_value t v" "json_elements r' vs'"
  from w h(3) have "list_all is_ws (w @ w1)" by simp
  from elements_more [OF this h(4,5,6)] h(1,2) show ?thesis by simp
qed

lemma json_members_ws: "list_all is_ws w \<Longrightarrow> json_members r kvs \<Longrightarrow> json_members (w @ r) kvs"
proof (cases rule: json_members.cases, assumption)
  fix w1 w2 w3 w4 kt k t v
  assume w: "list_all is_ws w"
    and h: "r = w1 @ CHR 0x22 # kt @ CHR 0x22 # w2 @ CHR '':'' # w3 @ t @ w4" "kvs = [(k, v)]"
      "list_all is_ws w1" "list_all is_ws w2" "list_all is_ws w3" "list_all is_ws w4"
      "json_chars kt k" "json_value t v"
  from w h(3) have "list_all is_ws (w @ w1)" by simp
  from members_last [OF this h(4,5,6,7,8)] h(1,2) show ?thesis by simp
next
  fix w1 w2 w3 w4 kt k t v r' kvs'
  assume w: "list_all is_ws w"
    and h: "r = w1 @ CHR 0x22 # kt @ CHR 0x22 # w2 @ CHR '':'' # w3 @ t @ w4 @ CHR '','' # r'"
      "kvs = (k, v) # kvs'"
      "list_all is_ws w1" "list_all is_ws w2" "list_all is_ws w3" "list_all is_ws w4"
      "json_chars kt k" "json_value t v" "json_members r' kvs'"
  from w h(3) have "list_all is_ws (w @ w1)" by simp
  from members_more [OF this h(4,5,6,7,8,9)] h(1,2) show ?thesis by simp
qed

lemma json_elements_join:
  "vs \<noteq> [] \<Longrightarrow> \<forall>v\<in>set vs. json_value (enc v) (tj v)
     \<Longrightarrow> json_elements (join '', '' (map enc vs)) (map tj vs)"
proof (induction vs rule: induct_list012)
  case 1
  then show ?case by simp
next
  case (2 x)
  then have "json_value (enc x) (tj x)" by simp
  from elements_last [of "[]" "[]", OF _ _ this] show ?case by simp
next
  case (3 x y zs)
  then have x: "json_value (enc x) (tj x)"
    and r: "json_elements (join '', '' (map enc (y # zs))) (map tj (y # zs))"
    by simp_all
  have "list_all is_ws '' ''" by (simp add: is_ws_def)
  from json_elements_ws [OF this r]
  have "json_elements ('' '' @ join '', '' (map enc (y # zs))) (map tj (y # zs))" .
  from elements_more [of "[]" "[]", OF _ _ x this] show ?case by simp
qed

lemma json_members_join:
  "kvs \<noteq> [] \<Longrightarrow> \<forall>(k, v)\<in>set kvs. json_value (enc v) (tj v)
     \<Longrightarrow> json_members (join '', '' (map (\<lambda>(k, v). encode_string (kn k) @ '': '' @ enc v) kvs))
           (map (\<lambda>(k, v). (kn k, tj v)) kvs)"
proof (induction kvs rule: induct_list012)
  case 1
  then show ?case by simp
next
  case (2 x)
  obtain k v where kv: "x = (k, v)" by (cases x)
  with 2 have "json_value (enc v) (tj v)" by simp
  from members_last [of "[]" "[]" "'' ''" "[]", OF _ _ _ _ json_chars_escape this, of "kn k"]
  show ?case by (simp add: kv encode_string_def is_ws_def)
next
  case (3 x y zs)
  obtain k v where kv: "x = (k, v)" by (cases x)
  with 3 have x: "json_value (enc v) (tj v)"
    and r: "json_members (join '', '' (map (\<lambda>(k, v). encode_string (kn k) @ '': '' @ enc v) (y # zs)))
              (map (\<lambda>(k, v). (kn k, tj v)) (y # zs))"
    by simp_all
  have "list_all is_ws '' ''" by (simp add: is_ws_def)
  from json_members_ws [OF this r]
  have "json_members ('' '' @ join '', '' (map (\<lambda>(k, v). encode_string (kn k) @ '': '' @ enc v) (y # zs)))
              (map (\<lambda>(k, v). (kn k, tj v)) (y # zs))" .
  from members_more [of "[]" "[]" "'' ''" "[]", OF _ _ _ _ json_chars_escape x this, of "kn k"]
  show ?case by (simp add: kv encode_string_def is_ws_def)
qed

lemma json_value_encode:
  assumes R: "\<forall>r. json_number (R r)"
  shows "serialisable v \<Longrightarrow> finite_floats v \<Longrightarrow> json_value (encode R v) (to_jvalue R v)"
proof (induction v)
  case PNone
  show ?case by (simp add: value_null)
next
  case (PBool b)
  show ?case by (simp add: value_true value_false)
next
  case (PInt n)
  show ?case by (simp add: value_number json_number_str_int)
next
  case (PFloat f)
  with R show ?case by (cases f) (simp_all add: value_number)
next
  case (PStr s)
  show ?case by (simp add: json_value_encode_string)
next
  case (PList vs)
  show ?case
  proof (cases "vs = []")
    case True
    from value_empty_array [of "[]"] show ?thesis by (simp add: True)
  next
    case False
    from PList have "\<forall>v\<in>set vs. json_value (encode R v) (to_jvalue R v)"
      by (simp add: list_all_iff)
    from value_array [OF json_elements_join [OF False this]] show ?thesis by simp
  qed
next
  case (PDict kvs)
  show ?case
  proof (cases "kvs = []")
    case True
    from value_empty_object [of "[]"] show ?thesis by (simp add: True)
  next
    case False
    have "\<forall>(k, v)\<in>set kvs. json_value (encode R v) (to_jvalue R v)"
    proof (clarify)
      fix k v assume m: "(k, v) \<in> set kvs"
      with PDict.prems have "serialisable v" "finite_floats v"
        by (auto simp: list_all_iff)
      with PDict.IH [OF m] show "json_value (encode R v) (to_jvalue R v)" by simp
    qed
    from value_object [OF json_members_join [OF False this, of "key_name R"]]
    show ?thesis by simp
  qed
next
  case (PObject d)
  then show ?case by simp
qed

lemma list_all_string_keys:
  "list_all (\<lambda>(k, v). P k v) (map (\<lambda>(k, v). (KeyStr k, v)) d)
     \<longleftrightarrow> list_all (\<lambda>(k, v). P (KeyStr k) v) d"
  by (induction d) auto

lemma json_dumps_string_keys:
  assumes "\<forall>r. json_number (float_repr E r)"
    and "list_all (\<lambda>(k, v). serialisable v) d" and "list_all (\<lambda>(k, v). finite_floats v) d"
  shows "\<exists>s. json_dumps E (PDict (map (\<lambda>(k, v). (KeyStr k, v)) d)) = Inr s
           \<and> json_text s (JObject (map (\<lambda>(k, v). (k, to_jvalue (float_repr E) v)) d))"
proof -
  let ?obj = "PDict (map (\<lambda>(k, v). (KeyStr k, v)) d)"
  have s: "serialisable ?obj" using assms(2) by (simp add: list_all_string_keys)
  have f: "finite_floats ?obj" using assms(3) by (simp add: list_all_string_keys)
  have t: "to_jvalue (float_repr E) ?obj
             = JObject (map (\<lambda>(k, v). (k, to_jvalue (float_repr E) v)) d)"
    by (simp add: case_prod_unfold comp_def)
  from json_value_encode [OF assms(1) s f]
  have "json_value (encode (float_repr E) ?obj)
          (JObject (map (\<lambda>(k, v). (k, to_jvalue (float_repr E) v)) d))"
    unfolding t .
  from json_text.intros [of "[]" "[]", OF _ _ this]
  have "json_text (encode (float_repr E) ?obj)
          (JObject (map (\<lambda>(k, v). (k, to_jvalue (float_repr E) v)) d))"
    by simp
  with s show ?thesis by (simp add: json_dumps_def)
qed

lemma json_dumps_TypeError:
  "\<not> list_all (\<lambda>(k, v). serialisable v) d
     \<Longrightarrow> json_dumps E (PDict (map (\<lambda>(k, v). (KeyStr k, v)) d)) = Inl TypeError"
  by (simp add: json_dumps_def list_all_string_keys)

text \<open>Outside its strings a JSON text has structural characters only.\<close>

lemma hex_value_plain: "hex_value h = Some a \<Longrightarrow> h \<noteq> CHR 0x22 \<and> h \<noteq> CHR 0x5C"
  by (cases "h = CHR 0x22"; cases "h = CHR 0x5C") (simp_all add: hex_value_def)

lemma bare_True_Cons:
  "s \<noteq> [] \<Longrightarrow> bare True (c # s)
     = (if c = CHR 0x22 then bare False s else if c = CHR 0x5C then bare True (tl s)
        else bare True s)"
  by (cases s) simp_all

lemma bare_string: "json_chars t s \<Longrightarrow> bare True (t @ CHR 0x22 # r) = bare False r"
proof (induction rule: json_chars.induct)
  case chars_end
  show ?case by (cases r) simp_all
next
  case (chars_plain c t s)
  then show ?case by (simp add: bare_True_Cons)
next
  case (chars_escape e c t s)
  then show ?case by simp
next
  case (chars_unicode h1 h2 h3 a h4 b c t s)
  with hex_value_plain [of h1] hex_value_plain [of h2] hex_value_plain [of h3]
    hex_value_plain [of h4]
  show ?case by (simp add: bare_True_Cons)
qed

lemma bare_plain:
  "list_all (\<lambda>c. c \<noteq> CHR 0x22) a \<Longrightarrow> bare False (a @ r) = a @ bare False r"
  by (induction a) simp_all

lemma structural_digit: "is_digit c \<Longrightarrow> structural c"
  by (simp add: structural_def)

lemma structural_space: "is_ws c \<Longrightarrow> structural c"
  by (simp add: structural_def)

lemma structural_quote: "\<not> structural (CHR 0x22)"
  by (simp add: structural_def is_digit_def is_ws_def)

lemma structural_plain: "list_all structural s \<Longrightarrow> list_all (\<lambda>c. c \<noteq> CHR 0x22) s"
  using structural_quote by (auto simp: list_all_iff)

lemma structural_ws: "list_all is_ws w \<Longrightarrow> list_all structural w"
  using structural_space by (auto simp: list_all_iff)

lemma structural_all_digits: "list_all is_digit w \<Longrightarrow> list_all structural w"
  using structural_digit by (auto simp: list_all_iff)

lemma bare_structural:
  "list_all structural s \<Longrightarrow> bare False (s @ r) = s @ bare False r"
  by (rule bare_plain [OF structural_plain])

lemma bare_structural_id: "list_all structural s \<Longrightarrow> bare False s = s"
  using bare_structural [of s "[]"] by simp

lemma takeWhile_dropWhile_all:
  "list_all P (takeWhile Q xs) \<Longrightarrow> list_all P (dropWhile Q xs) \<Longrightarrow> list_all P xs"
  by (metis list_all_append takeWhile_dropWhile_id)

lemma structural_digits: "list_all structural (takeWhile is_digit xs)"
  by (induction xs) (simp_all add: structural_digit)

lemma structural_marks:
  "structural CHR ''e''" "structural CHR ''E''" "structural CHR ''+''" "structural CHR ''-''"
  "structural CHR ''.''" "structural CHR ''[''" "structural CHR '']''" "structural CHR ''{''"
  "structural CHR ''}''" "structural CHR '':''" "structural CHR '',''" "structural CHR ''n''"
  "structural CHR ''u''" "structural CHR ''l''" "structural CHR ''t''" "structural CHR ''r''"
  "structural CHR ''f''" "structural CHR ''a''" "structural CHR ''s''"
  by (simp_all add: structural_def)

lemma json_exp_structural: "json_exp s \<Longrightarrow> list_all structural s"
proof (cases s)
  case Nil
  then show ?thesis by simp
next
  case s: (Cons e r)
  assume j: "json_exp s"
  with s have "e = CHR ''e'' \<or> e = CHR ''E''" by (simp add: json_exp_def)
  with structural_marks have se: "structural e" by blast
  show ?thesis
  proof (cases r)
    case Nil
    with se s show ?thesis by simp
  next
    case r: (Cons c x)
    show ?thesis
    proof (cases "c = CHR ''+'' \<or> c = CHR ''-''")
      case True
      with j s r have "list_all is_digit x" by (simp add: json_exp_def)
      moreover from True structural_marks have "structural c" by blast
      ultimately show ?thesis using se s r by (simp add: structural_all_digits)
    next
      case False
      with j s r have "list_all is_digit r" by (simp add: json_exp_def)
      with se s show ?thesis by (simp add: structural_all_digits)
    qed
  qed
qed

lemma json_frac_exp_structural: "json_frac_exp s \<Longrightarrow> list_all structural s"
proof (cases s)
  case Nil
  then show ?thesis by simp
next
  case (Cons c r)
  assume j: "json_frac_exp s"
  show ?thesis
  proof (cases "c = CHR ''.''")
    case True
    with j Cons have "json_exp (dropWhile is_digit r)" by (simp add: json_frac_exp_def)
    from takeWhile_dropWhile_all [OF structural_digits json_exp_structural [OF this]]
    show ?thesis by (simp add: Cons True structural_marks)
  next
    case False
    with j Cons have "json_exp s" by (simp add: json_frac_exp_def)
    then show ?thesis by (rule json_exp_structural)
  qed
qed

lemma json_number_structural: "json_number s \<Longrightarrow> list_all structural s"
proof (cases s)
  case Nil
  then show ?thesis by simp
next
  case (Cons c r)
  assume j: "json_number s"
  show ?thesis
  proof (cases "c = CHR ''-''")
    case True
    with j Cons have "json_frac_exp (dropWhile is_digit r)"
      by (simp add: json_number_def Let_def)
    from takeWhile_dropWhile_all [OF structural_digits json_frac_exp_structural [OF this]]
    show ?thesis by (simp add: Cons True structural_marks)
  next
    case False
    with j Cons have "json_frac_exp (dropWhile is_digit s)"
      by (simp add: json_number_def Let_def)
    from takeWhile_dropWhile_all [OF structural_digits json_frac_exp_structural [OF this]]
    show ?thesis .
  qed
qed

lemma bare_json:
  "(json_value s v \<longrightarrow>
      (\<forall>r. bare False (s @ r) = bare False s @ bare False r) \<and> list_all structural (bare False s))
   \<and> (json_elements s1 vs \<longrightarrow>
      (\<forall>r. bare False (s1 @ r) = bare False s1 @ bare False r) \<and> list_all structural (bare False s1))
   \<and> (json_members s2 kvs \<longrightarrow>
      (\<forall>r. bare False (s2 @ r) = bare False s2 @ bare False r) \<and> list_all structural (bare False s2))"
proof (induction rule: json_value_json_elements_json_members.induct)
  case value_null
  show ?case by (simp add: structural_marks)
next
  case value_true
  show ?case by (simp add: structural_marks)
next
  case value_false
  show ?case by (simp add: structural_marks)
next
  case (value_number s)
  from json_number_structural [OF this] show ?case
    by (simp add: bare_structural bare_structural_id)
next
  case (value_string t s)
  from bare_string [OF this] show ?case by simp
next
  case (value_empty_array w)
  from structural_ws [OF this] show ?case
    by (simp add: bare_structural bare_structural_id structural_marks)
next
  case (value_array t vs)
  then show ?case by (simp add: structural_marks)
next
  case (value_empty_object w)
  from structural_ws [OF this] show ?case
    by (simp add: bare_structural bare_structural_id structural_marks)
next
  case (value_object t kvs)
  then show ?case by (simp add: structural_marks)
next
  case (elements_last w1 w2 t v)
  from elements_last structural_ws [OF elements_last(1)] structural_ws [OF elements_last(2)]
  show ?case by (simp add: bare_structural bare_structural_id)
next
  case (elements_more w1 w2 t v r vs)
  from elements_more structural_ws [OF elements_more(1)] structural_ws [OF elements_more(2)]
  show ?case by (simp add: bare_structural bare_structural_id structural_marks)
next
  case (members_last w1 w2 w3 w4 kt k t v)
  from members_last structural_ws [OF members_last(1)] structural_ws [OF members_last(2)]
    structural_ws [OF members_last(3)] structural_ws [OF members_last(4)]
    bare_string [OF members_last(5)]
  show ?case by (simp add: bare_structural bare_structural_id structural_marks)
next
  case (members_more w1 w2 w3 w4 kt k t v r kvs)
  from members_more structural_ws [OF members_more(1)] structural_ws [OF members_more(2)]
    structural_ws [OF members_more(3)] structural_ws [OF members_more(4)]
    bare_string [OF members_more(5)]
  show ?case by (simp add: bare_structural bare_structural_id structural_marks)
qed

lemma json_text_bare: "json_text s v \<Longrightarrow> list_all structural (bare False s)"
proof (induction rule: json_text.induct)
  case (1 w1 w2 t v)
  from bare_json [of t v "[]" "[]" "[]" "[]"] 1(3)
  have "\<forall>r. bare False (t @ r) = bare False t @ bare False r" "list_all structural (bare False t)"
    by simp_all
  with structural_ws [OF 1(1)] structural_ws [OF 1(2)] show ?case
    by (simp add: bare_structural bare_structural_id)
qed

lemma not_json_text: "c \<in> set (bare False s) \<Longrightarrow> \<not> structural c \<Longrightarrow> \<not> json_text s v"
  using json_text_bare [of s v] by (auto simp: list_all_iff)

subsection \<open>The model parameters handed to \<open>json.dumps\<close>\<close>

lemma get_model_parameters_json_TypeError:
  assumes "ds \<noteq> []" and "\<not> serialisable (model_parameters m)"
  shows "get_model_parameters_json E m ds = Inl TypeError"
proof -
  from model_params_dict_nonempty [OF assms(1), of E m]
  obtain d where d: "model_params_dict E m ds = Inr d" by blast
  from model_params_dict_all [OF d, of serialisable] assms(2)
  have "\<not> list_all (\<lambda>(k, v). serialisable v) d" by simp
  from json_dumps_TypeError [OF this] d show ?thesis
    by (simp add: get_model_parameters_json_def)
qed


text \<open>
  Claim C8, as amended. On the empty dataset the division raises ZeroDivisionError.
  On a non-empty \<open>train_list_dataset\<close>, \<open>_get_model_parameters_json\<close> raises TypeError
  when \<open>model_parameters\<close> holds a value that \<open>json.dumps\<close> cannot encode. When it
  holds none, and no float that is \<open>NaN\<close> or infinite (\<open>repr\<close> writing every finite float
  as a JSON number), the function returns a valid JSON text for an object with
  distinct names, in which \<open>timeseries_number\<close> is the number of series and
  \<open>timeseries_average_length\<close> is \<open>round\<close> of the total target length divided by the
  number of series, an integer at distance at most one half from that quotient.
\<close>

theorem get_model_parameters_json_average:
  "(train_list_dataset = [] \<longrightarrow>
      get_model_parameters_json E m train_list_dataset = Inl ZeroDivisionError)
   \<and> (train_list_dataset \<noteq> [] \<and> \<not> serialisable (model_parameters m) \<longrightarrow>
      get_model_parameters_json E m train_list_dataset = Inl TypeError)
   \<and> (train_list_dataset \<noteq> [] \<and> serialisable (model_parameters m)
      \<and> finite_floats (model_parameters m) \<and> (\<forall>r. json_number (float_repr E r)) \<longrightarrow>
      (\<exists>s members number average.
         get_model_parameters_json E m train_list_dataset = Inr s
         \<and> json_text s (JObject members)
         \<and> distinct (map fst members)
         \<and> map_of members ''timeseries_number'' = Some (JNumber number)
         \<and> json_number number
         \<and> int_of_token number = int (length train_list_dataset)
         \<and> map_of members ''timeseries_average_length'' = Some (JNumber average)
         \<and> json_number average
         \<and> int_of_token average
             = py_round (real (sum_list (map (\<lambda>ts. length (target ts)) train_list_dataset))
                         / real (length train_list_dataset))
         \<and> \<bar>real_of_int (int_of_token average)
              - real (sum_list (map (\<lambda>ts. length (target ts)) train_list_dataset))
                / real (length train_list_dataset)\<bar> \<le> 1 / 2))"
proof (intro conjI impI)
  assume "train_list_dataset = []"
  then show "get_model_parameters_json E m train_list_dataset = Inl ZeroDivisionError"
    by (simp add: get_model_parameters_json_def model_params_dict_empty)
next
  assume "train_list_dataset \<noteq> [] \<and> \<not> serialisable (model_parameters m)"
  then show "get_model_parameters_json E m train_list_dataset = Inl TypeError"
    by (simp add: get_model_parameters_json_TypeError)
next
  let ?q = "real (sum_list (map (\<lambda>ts. length (target ts)) train_list_dataset))
            / real (length train_list_dataset)"
  let ?R = "float_repr E"
  assume h: "train_list_dataset \<noteq> [] \<and> serialisable (model_parameters m)
      \<and> finite_floats (model_parameters m) \<and> (\<forall>r. json_number (float_repr E r))"
  from model_params_dict_nonempty [of train_list_dataset E m] h obtain d where
    d: "model_params_dict E m train_list_dataset = Inr d" "distinct (map fst d)"
       "map_of d ''timeseries_number'' = Some (PInt (int (length train_list_dataset)))"
       "map_of d ''timeseries_average_length'' = Some (PInt (py_round ?q))"
    by blast
  let ?members = "map (\<lambda>(k, v). (k, to_jvalue ?R v)) d"
  from model_params_dict_all [OF d(1), of serialisable] h
  have s: "list_all (\<lambda>(k, v). serialisable v) d" by simp
  from model_params_dict_all [OF d(1), of finite_floats] h
  have f: "list_all (\<lambda>(k, v). finite_floats v) d" by simp
  from json_dumps_string_keys [OF _ s f] h obtain s where
    s: "json_dumps E (PDict (map (\<lambda>(k, v). (KeyStr k, v)) d)) = Inr s"
       "json_text s (JObject ?members)"
    by blast
  have r: "get_model_parameters_json E m train_list_dataset = Inr s"
    by (simp add: get_model_parameters_json_def d(1) s(1))
  have k: "map fst ?members = map fst d" by (simp add: case_prod_unfold comp_def)
  have v: "map_of ?members = map_option (to_jvalue ?R) \<circ> map_of d" by (rule map_of_map)
  have n: "map_of ?members ''timeseries_number''
             = Some (JNumber (str_int (int (length train_list_dataset))))"
    by (simp add: v d(3))
  have a: "map_of ?members ''timeseries_average_length'' = Some (JNumber (str_int (py_round ?q)))"
    by (simp add: v d(4))
  have dm: "distinct (map fst ?members)" unfolding k by (rule d(2))
  have "get_model_parameters_json E m train_list_dataset = Inr s
         \<and> json_text s (JObject ?members)
         \<and> distinct (map fst ?members)
         \<and> map_of ?members ''timeseries_number''
             = Some (JNumber (str_int (int (length train_list_dataset))))
         \<and> json_number (str_int (int (length train_list_dataset)))
         \<and> int_of_token (str_int (int (length train_list_dataset)))
             = int (length train_list_dataset)
         \<and> map_of ?members ''timeseries_average_length'' = Some (JNumber (str_int (py_round ?q)))
         \<and> json_number (str_int (py_round ?q))
         \<and> int_of_token (str_int (py_round ?q)) = py_round ?q
         \<and> \<bar>real_of_int (int_of_token (str_int (py_round ?q))) - ?q\<bar> \<le> 1 / 2"
    by (intro conjI r s(2) dm n a json_number_str_int int_of_token_str_int)
       (simp only: int_of_token_str_int py_round_nearest)
  then show "\<exists>s members number average.
         get_model_parameters_json E m train_list_dataset = Inr s
         \<and> json_text s (JObject members)
         \<and> distinct (map fst members)
         \<and> map_of members ''timeseries_number'' = Some (JNumber number)
         \<and> json_number number
         \<and> int_of_token number = int (length train_list_dataset)
         \<and> map_of members ''timeseries_average_length'' = Some (JNumber average)
         \<and> json_number average
         \<and> int_of_token average = py_round ?q
         \<and> \<bar>real_of_int (int_of_token average) - ?q\<bar> \<le> 1 / 2"
    by blast
qed

text \<open>
  The claim as first stated fails on a non-empty dataset in two ways: a model
  parameter that is a NumPy number makes \<open>json.dumps\<close> raise TypeError, and a
  parameter that is \<open>NaN\<close> is written as the name \<open>NaN\<close>, which no JSON text has outside
  a string.
\<close>

lemma nan_model_json:
  "get_model_parameters_json example_env nan_model [ts_plain]
     = Inr (encode (float_repr example_env)
         (PDict [(KeyStr ''model_name'', PStr ''naive''), (KeyStr ''frequency'', PStr ''D''),
                 (KeyStr ''prediction_length'', PInt 2),
                 (KeyStr ''use_external_features'', PBool False),
                 (KeyStr ''timeseries_number'', PInt 1),
                 (KeyStr ''timeseries_average_length'', PInt 2),
                 (KeyStr ''model_parameters'',
                  PDict [(KeyStr ''kwargs'', PDict [(KeyStr ''scale'', PFloat NaN)])]),
                 (KeyStr ''season_length'', PInt 7)]))"
  by (simp add: get_model_parameters_json_def model_params_dict_def py_truediv_def py_round_def
        json_dumps_def Let_def dict_set_def nan_model_def naive_model_def ts_plain_def
        example_env_def example_handler_def del: encode.simps)

lemma nan_model_bare:
  "CHR ''N'' \<in> set (bare False (encode (float_repr example_env)
         (PDict [(KeyStr ''model_name'', PStr ''naive''), (KeyStr ''frequency'', PStr ''D''),
                 (KeyStr ''prediction_length'', PInt 2),
                 (KeyStr ''use_external_features'', PBool False),
                 (KeyStr ''timeseries_number'', PInt 1),
                 (KeyStr ''timeseries_average_length'', PInt 2),
                 (KeyStr ''model_parameters'',
                  PDict [(KeyStr ''kwargs'', PDict [(KeyStr ''scale'', PFloat NaN)])]),
                 (KeyStr ''season_length'', PInt 7)])))"
  by (simp add: encode_string_def escape_char_def str_int_def digits.simps digit_char_def)

theorem get_model_parameters_json_average_counterexample:
  "[ts_plain] \<noteq> []
   \<and> get_model_parameters_json example_env numpy_model [ts_plain] = Inl TypeError
   \<and> get_model_parameters_json example_env nan_model [ts_plain]
     = Inr (encode (float_repr example_env)
         (PDict [(KeyStr ''model_name'', PStr ''naive''), (KeyStr ''frequency'', PStr ''D''),
                 (KeyStr ''prediction_length'', PInt 2),
                 (KeyStr ''use_external_features'', PBool False),
                 (KeyStr ''timeseries_number'', PInt 1),
                 (KeyStr ''timeseries_average_length'', PInt 2),
                 (KeyStr ''model_parameters'',
                  PDict [(KeyStr ''kwargs'', PDict [(KeyStr ''scale'', PFloat NaN)])]),
                 (KeyStr ''season_length'', PInt 7)]))
   \<and> encode (float_repr example_env) (PFloat NaN) = ''NaN''
   \<and> \<not> (\<exists>v. json_text (projr (get_model_parameters_json example_env nan_model [ts_plain])) v)"
proof -
  have a: "get_model_parameters_json example_env numpy_model [ts_plain] = Inl TypeError"
    by (simp add: get_model_parameters_json_def model_params_dict_def py_truediv_def
          json_dumps_def Let_def dict_set_def numpy_model_def naive_model_def ts_plain_def)
  have "\<not> structural CHR ''N''" by (simp add: structural_def is_digit_def is_ws_def)
  from not_json_text [OF nan_model_bare this]
  have "\<not> (\<exists>v. json_text (projr (get_model_parameters_json example_env nan_model [ts_plain])) v)"
    by (simp add: nan_model_json del: encode.simps)
  with a nan_model_json show ?thesis by simp
qed

theorem get_model_parameters_json_average_witness:
  "get_model_parameters_json example_env tuned_model [] = Inl ZeroDivisionError
   \<and> [ts_plain] \<noteq> [] \<and> \<not> serialisable (model_parameters numpy_model)
   \<and> get_model_parameters_json example_env numpy_model [ts_plain] = Inl TypeError
   \<and> [ts_a, ts_b] \<noteq> [] \<and> serialisable (model_parameters tuned_model)
   \<and> finite_floats (model_parameters tuned_model)
   \<and> (\<forall>r. json_number (float_repr example_env r))
   \<and> (\<exists>s members number average.
         get_model_parameters_json example_env tuned_model [ts_a, ts_b] = Inr s
         \<and> json_text s (JObject members)
         \<and> distinct (map fst members)
         \<and> map_of members ''timeseries_number'' = Some (JNumber number)
         \<and> json_number number
         \<and> int_of_token number = 2
         \<and> map_of members ''timeseries_average_length'' = Some (JNumber average)
         \<and> json_number average
         \<and> int_of_token average = 4
         \<and> \<bar>real_of_int (int_of_token average) - 7 / 2\<bar> \<le> 1 / 2)"
proof -
  have h: "serialisable (model_parameters tuned_model)"
    "finite_floats (model_parameters tuned_model)"
    "\<not> serialisable (model_parameters numpy_model)"
    by (simp_all add: tuned_model_def numpy_model_def)
  have r: "\<forall>r. json_number (float_repr example_env r)"
    by (simp add: example_env_def json_number_def json_frac_exp_def json_exp_def is_digit_def)
  have q: "py_round (7 / 2) = 4" by (simp add: py_round_def)
  from get_model_parameters_json_average [of "[]" example_env tuned_model]
       get_model_parameters_json_average [of "[ts_plain]" example_env numpy_model]
       get_model_parameters_json_average [of "[ts_a, ts_b]" example_env tuned_model]
       h r q
  show ?thesis by (simp add: ts_a_def ts_b_def)
qed

text \<open>Three and four observations average to 3.5, which rounds to the even 4.\<close>

lemma average_length_ties_to_even:
  "model_params_dict example_env naive_model [ts_a, ts_b] =
     Inr [(''model_name'', PStr ''naive''), (''frequency'', PStr ''D''),
          (''prediction_length'', PInt 2), (''use_external_features'', PBool False),
          (''timeseries_number'', PInt 2), (''timeseries_average_length'', PInt 4),
          (''model_parameters'', PDict []), (''season_length'', PInt 7)]"
  by (simp add: model_params_dict_def py_truediv_def py_round_def Let_def ts_a_def ts_b_def
        naive_model_def example_env_def example_handler_def dict_set_def)

subsection \<open>Training failures\<close>

text \<open>
  Claim C5, as amended. \<open>_train_estimator\<close> raises ModelTrainingError exactly when
  the model has an estimator and the library's \<open>train\<close> raises an instance of
  \<open>Exception\<close>; the message embeds the model name and the text of the original
  error. An exception of \<open>train\<close> that is not an instance of \<open>Exception\<close> leaves
  the method unwrapped. When \<open>train\<close> succeeds its predictor is returned as it is.
  Without an estimator the outcome is that of the handler's \<open>predictor\<close>, it is the
  same for every training dataset, and it is never a ModelTrainingError.
\<close>

theorem train_estimator_wraps_training_failure:
  "((\<exists>msg. fst (train_estimator E m w train_list_dataset) = Inl (ModelTrainingError msg))
      \<longleftrightarrow> (\<exists>est err. estimator m = Some est
                       \<and> estimator_train E est train_list_dataset = RaisesException err))
   \<and> (\<forall>est err. estimator m = Some est
                  \<and> estimator_train E est train_list_dataset = RaisesException err
        \<longrightarrow> fst (train_estimator E m w train_list_dataset)
              = Inl (ModelTrainingError
                       (''GluonTS '' @ [CHR 0x27] @ model_name m @ [CHR 0x27]
                          @ '' model crashed during training. Full error: '' @ err)))
   \<and> (\<forall>est err. estimator m = Some est
                  \<and> estimator_train E est train_list_dataset = RaisesBaseException err
        \<longrightarrow> fst (train_estimator E m w train_list_dataset) = Inl (ExternalError err))
   \<and> (\<forall>est p. estimator m = Some est \<and> estimator_train E est train_list_dataset = Trained p
        \<longrightarrow> fst (train_estimator E m w train_list_dataset) = Inr p)
   \<and> (estimator m = None
        \<longrightarrow> fst (train_estimator E m w train_list_dataset)
              = external (mh_predictor (handler E) (model_name m) (predictor_kwargs E m))
            \<and> (\<forall>other. train_estimator E m w other = train_estimator E m w train_list_dataset))"
  by (auto simp: train_estimator_def training_error_message_def external_def
           split: option.splits sum.splits training_outcome.splits)

text \<open>
  The claim as first stated, with any exception of \<open>train\<close> on the right of the
  equivalence, fails: a KeyboardInterrupt raised by \<open>train\<close> is not caught by
  \<open>except Exception\<close> and no ModelTrainingError is raised.
\<close>

theorem train_estimator_wraps_training_failure_counterexample:
  "estimator deepar_model = Some (Estimator 0)
   \<and> estimator_train interrupted_env (Estimator 0) [ts_a]
       = RaisesBaseException ''KeyboardInterrupt''
   \<and> fst (train_estimator interrupted_env deepar_model example_world [ts_a])
       = Inl (ExternalError ''KeyboardInterrupt'')"
  by (simp add: train_estimator_def interrupted_env_def deepar_model_def)

theorem train_estimator_wraps_training_failure_witness:
  "estimator deepar_model = Some (Estimator 0)
   \<and> estimator_train example_env (Estimator 0) [] = RaisesException ''no data''
   \<and> fst (train_estimator example_env deepar_model example_world [])
       = Inl (ModelTrainingError
                (''GluonTS '' @ [CHR 0x27] @ ''deepar'' @ [CHR 0x27]
                   @ '' model crashed during training. Full error: no data''))
   \<and> estimator_train example_env (Estimator 0) [ts_a] = Trained (Predictor 1)
   \<and> fst (train_estimator example_env deepar_model example_world [ts_a]) = Inr (Predictor 1)
   \<and> estimator naive_model = None
   \<and> fst (train_estimator example_env naive_model example_world [ts_a]) = Inr (Predictor 7)
   \<and> train_estimator example_env naive_model example_world []
       = train_estimator example_env naive_model example_world [ts_a]"
  using train_estimator_wraps_training_failure [of example_env deepar_model example_world "[]"]
        train_estimator_wraps_training_failure [of example_env deepar_model example_world "[ts_a]"]
        train_estimator_wraps_training_failure [of example_env naive_model example_world "[ts_a]"]
  by (simp add: deepar_model_def naive_model_def example_env_def example_handler_def
        external_def)

subsection \<open>The constructor\<close>

lemma py_split_item0: "item0 (py_split sep s) = Inr (takeWhile (\<lambda>c. c \<noteq> sep) s)"
  by (induction s) (auto simp: item0_def split: list.splits)

lemma translate_frequency_Inr:
  assumes "translate_frequency E freq = Inr f"
  shows "\<exists>off. to_offset E freq = Inr off
           \<and> f = (if isinstance_CUSTOMISABLE_FREQUENCIES_OFFSETS E off
                  then takeWhile (\<lambda>c. c \<noteq> CHR ''-'') (offset_name off) else freq)"
  using assms
  by (auto simp: translate_frequency_def external_def py_split_item0 split: sum.splits if_splits)

lemma map_of_build_estimator_kwargs_freq:
  "map_of (build_estimator_kwargs f pl tr use_seas sl u) ''freq'' = Some (KStr f)"
  by (simp add: build_estimator_kwargs_def Let_def map_of_dict_set split: option.splits)

lemma map_of_build_estimator_kwargs_feat:
  "map_of (build_estimator_kwargs f pl tr use_seas sl u) ''use_feat_dynamic_real''
     = (if u then Some (KBool True) else None)"
  by (simp add: build_estimator_kwargs_def Let_def map_of_dict_set split: option.splits)

lemma init_Inr_fields:
  assumes "init E name params freq pl ep use_ext bs nbpe sl ctx = Inr m"
  shows "translate_frequency E freq = Inr (frequency m)
          \<and> custom_frequency m = freq
          \<and> use_external_features m = (use_ext \<and> mh_can_use_external_feature (handler E) name)
          \<and> estimator_kwargs m =
               build_estimator_kwargs (frequency m) pl (trainer m)
                 (mh_can_use_seasonality (handler E) name) sl (use_external_features m)"
  using assms
  by (auto simp: init_def Let_def split: sum.splits)

text \<open>
  Claim C4. Whenever the constructor accepts a frequency string, \<open>custom_frequency\<close>
  is that string unchanged; \<open>frequency\<close>, which is also the \<open>freq\<close> entry of
  \<open>estimator_kwargs\<close>, is that string too unless its offset is one of the customisable
  offsets, and then it is the offset's name cut at the first \<open>-\<close>. With an offset
  named \<open>W-MON\<close> this gives \<open>W\<close>.
\<close>

theorem init_frequency_translation:
  assumes "init E name params freq pl ep use_ext bs nbpe sl ctx = Inr m"
  shows "custom_frequency m = freq
     \<and> map_of (estimator_kwargs m) ''freq'' = Some (KStr (frequency m))
     \<and> (\<exists>off. to_offset E freq = Inr off
           \<and> frequency m = (if isinstance_CUSTOMISABLE_FREQUENCIES_OFFSETS E off
                             then takeWhile (\<lambda>c. c \<noteq> CHR ''-'') (offset_name off)
                             else freq))"
proof -
  note i = init_Inr_fields [OF assms]
  have "map_of (estimator_kwargs m) ''freq'' = Some (KStr (frequency m))"
    by (subst conjunct2 [OF conjunct2 [OF conjunct2 [OF i]]])
       (rule map_of_build_estimator_kwargs_freq)
  with i translate_frequency_Inr [of E freq "frequency m"] show ?thesis by simp
qed

theorem init_frequency_translation_witness:
  "init example_env ''deepar'' (PDict []) ''W-MON'' 2 10 True (Some 32) None None None
     = Inr deepar_model
   \<and> custom_frequency deepar_model = ''W-MON''
   \<and> frequency deepar_model = ''W''
   \<and> map_of (estimator_kwargs deepar_model) ''freq'' = Some (KStr ''W'')"
proof -
  have i: "init example_env ''deepar'' (PDict []) ''W-MON'' 2 10 True (Some 32) None None None
     = Inr deepar_model"
    by (simp add: init_def translate_frequency_def external_def item0_def example_env_def
          example_handler_def deepar_model_def dict_set_def Let_def trainer_kwargs_def
          build_estimator_kwargs_def)
  from init_frequency_translation [OF i] i show ?thesis
    by (simp add: example_env_def)
qed

text \<open>
  Claim C7. After construction \<open>use_external_features\<close> holds exactly when the
  argument was true and the handler says the model can use external features, and
  \<open>estimator_kwargs\<close> has the entry \<open>use_feat_dynamic_real: True\<close> exactly when the
  attribute holds; otherwise it has no such key.
\<close>

theorem init_external_features:
  assumes "init E name params freq pl ep use_ext bs nbpe sl ctx = Inr m"
  shows "(use_external_features m
            \<longleftrightarrow> use_ext \<and> mh_can_use_external_feature (handler E) name)
     \<and> (map_of (estimator_kwargs m) ''use_feat_dynamic_real'' = Some (KBool True)
            \<longleftrightarrow> use_external_features m)
     \<and> (\<not> use_external_features m
            \<longrightarrow> map_of (estimator_kwargs m) ''use_feat_dynamic_real'' = None)"
proof -
  note i = init_Inr_fields [OF assms]
  then have u: "use_external_features m
                  = (use_ext \<and> mh_can_use_external_feature (handler E) name)"
    by simp
  have "map_of (estimator_kwargs m) ''use_feat_dynamic_real''
          = (if use_external_features m then Some (KBool True) else None)"
    by (subst conjunct2 [OF conjunct2 [OF conjunct2 [OF i]]])
       (rule map_of_build_estimator_kwargs_feat)
  with u show ?thesis by simp
qed

theorem init_external_features_witness:
  "init example_env ''naive'' (PDict []) ''D'' 2 10 True None None (Some 7) None
     = Inr naive_model
   \<and> \<not> mh_can_use_external_feature (handler example_env) ''naive''
   \<and> \<not> use_external_features naive_model
   \<and> map_of (estimator_kwargs naive_model) ''use_feat_dynamic_real'' = None"
proof -
  have i: "init example_env ''naive'' (PDict []) ''D'' 2 10 True None None (Some 7) None
     = Inr naive_model"
    by (simp add: init_def translate_frequency_def external_def item0_def example_env_def
          example_handler_def naive_model_def dict_set_def Let_def trainer_kwargs_def
          build_estimator_kwargs_def)
  from init_external_features [OF i] i show ?thesis
    by (simp add: example_env_def example_handler_def)
qed

lemma init_external_features_deepar:
  "use_external_features deepar_model
   \<and> map_of (estimator_kwargs deepar_model) ''use_feat_dynamic_real'' = Some (KBool True)"
  by (simp add: deepar_model_def)


subsection \<open>Grouping the median forecasts\<close>

lemma sum_lengths_dict_set_new:
  "map_of d k = None \<Longrightarrow>
   sum_list (map (\<lambda>(k, l). length l) (dict_set k v d))
     = sum_list (map (\<lambda>(k, l). length l) d) + length v"
  by (induction d) (auto simp: dict_set_def)

lemma sum_lengths_dict_set_old:
  "map_of d k = Some l \<Longrightarrow>
   sum_list (map (\<lambda>(k, l). length l) (dict_set k (l @ v) d))
     = sum_list (map (\<lambda>(k, l). length l) d) + length v"
  by (induction d) (auto simp: dict_set_def)

text \<open>What the loop adds to the entry of a key.\<close>

lemma median_loop_invariant:
  assumes "i + length fs \<le> length ds" "distinct (map fst acc)"
  shows "\<exists>d. median_loop E m ds i fs acc = Inr d
           \<and> distinct (map fst d)
           \<and> sum_list (map (\<lambda>(k, l). length l) d)
               = sum_list (map (\<lambda>(k, l). length l) acc) + length fs
           \<and> (\<forall>k. map_of d k =
                 (case map_of acc k of
                    None \<Rightarrow> (if series_of_key E m fs (drop i ds) k = [] then None
                              else Some (series_of_key E m fs (drop i ds) k))
                  | Some l \<Rightarrow> Some (l @ series_of_key E m fs (drop i ds) k)))"
  using assms
proof (induction fs arbitrary: i acc)
  case Nil
  then show ?case by (auto simp: series_of_key_def split: option.splits)
next
  case (Cons f fs)
  then have i: "i < length ds" and le: "Suc i + length fs \<le> length ds" by simp_all
  let ?ts = "ds ! i"
  let ?key = "timeseries_identifier_key ?ts"
  let ?s = "median_series E m f ?ts"
  let ?acc = "case map_of acc ?key of
                Some l \<Rightarrow> dict_set ?key (l @ [?s]) acc
              | None \<Rightarrow> dict_set ?key [?s] acc"
  have dacc: "distinct (map fst ?acc)"
    using Cons.prems(2) by (simp add: distinct_dict_set split: option.splits)
  have sacc: "sum_list (map (\<lambda>(k, l). length l) ?acc)
                = sum_list (map (\<lambda>(k, l). length l) acc) + 1"
    using sum_lengths_dict_set_new [of acc ?key "[?s]"]
          sum_lengths_dict_set_old [of acc ?key _ "[?s]"]
    by (auto split: option.splits)
  have macc: "\<And>k. map_of ?acc k =
                (if k = ?key
                 then Some ((case map_of acc ?key of None \<Rightarrow> [] | Some l \<Rightarrow> l) @ [?s])
                 else map_of acc k)"
    by (simp add: map_of_dict_set split: option.splits)
  have dr: "drop i ds = ?ts # drop (Suc i) ds"
    using i by (simp add: Cons_nth_drop_Suc)
  have sk: "\<And>k. series_of_key E m (f # fs) (drop i ds) k
              = (if ?key = k then [?s] else []) @ series_of_key E m fs (drop (Suc i) ds) k"
    by (simp add: dr series_of_key_def)
  from Cons.IH [OF le dacc] obtain d where
    d: "median_loop E m ds (Suc i) fs ?acc = Inr d" "distinct (map fst d)"
       "sum_list (map (\<lambda>(k, l). length l) d)
          = sum_list (map (\<lambda>(k, l). length l) ?acc) + length fs"
       "\<And>k. map_of d k =
                 (case map_of ?acc k of
                    None \<Rightarrow> (if series_of_key E m fs (drop (Suc i) ds) k = [] then None
                              else Some (series_of_key E m fs (drop (Suc i) ds) k))
                  | Some l \<Rightarrow> Some (l @ series_of_key E m fs (drop (Suc i) ds) k))"
    by blast
  have "median_loop E m ds i (f # fs) acc = Inr d"
    using i d(1) by (simp add: Let_def)
  moreover have "sum_list (map (\<lambda>(k, l). length l) d)
               = sum_list (map (\<lambda>(k, l). length l) acc) + length (f # fs)"
    using d(3) sacc by simp
  moreover have "\<forall>k. map_of d k =
                 (case map_of acc k of
                    None \<Rightarrow> (if series_of_key E m (f # fs) (drop i ds) k = [] then None
                              else Some (series_of_key E m (f # fs) (drop i ds) k))
                  | Some l \<Rightarrow> Some (l @ series_of_key E m (f # fs) (drop i ds) k))"
    by (simp add: d(4) macc sk split: option.splits)
  ultimately show ?case using d(2) by blast
qed

lemma timeseries_identifier_key_permutation:
  assumes "identifiers ts = Some d" "identifiers ts' = Some d'" "mset d = mset d'"
  shows "timeseries_identifier_key ts = timeseries_identifier_key ts'"
proof -
  have "sort d = sort d'"
    by (rule properties_for_sort) (simp_all add: assms(3))
  with assms(1,2) show ?thesis by (simp add: timeseries_identifier_key_def)
qed

lemma median_forecasts_timeseries_entries:
  assumes "length forecasts_list = length train_list_dataset"
  shows "\<exists>d. compute_median_forecasts_timeseries E m forecasts_list train_list_dataset = Inr d
           \<and> distinct (map fst d)
           \<and> sum_list (map (\<lambda>(k, l). length l) d) = length forecasts_list
           \<and> (\<forall>k. map_of d k =
                 (if series_of_key E m forecasts_list train_list_dataset k = [] then None
                  else Some (series_of_key E m forecasts_list train_list_dataset k)))"
  using median_loop_invariant [of 0 forecasts_list train_list_dataset "[]" E m] assms
  unfolding compute_median_forecasts_timeseries_def by auto

lemma series_of_key_explicit:
  "series_of_key E m forecasts_list ds k
     = map (\<lambda>(f, ts). (quantile_forecasts_series E f (1 / 2) (custom_frequency m))
                         \<lparr> series_name := model_name m @ ''_'' @ target_name ts \<rparr>)
         (filter (\<lambda>(f, ts). (case identifiers ts of None \<Rightarrow> None
                              | Some ids \<Rightarrow> Some (sort ids)) = k)
            (zip forecasts_list ds))"
  unfolding series_of_key_def median_series_def timeseries_identifier_key_def
  by (rule refl)

text \<open>
  Claim C10. For a forecasts list and a dataset of equal length,
  \<open>_compute_median_forecasts_timeseries\<close> returns a dict with distinct keys whose value
  lists hold as many series as there are forecasts. Under each key stand, in dataset
  order, the series of exactly the forecasts whose timeseries has that key, each
  being the 0.5-quantile series of its forecast at the model's custom frequency,
  renamed to the model name, an underscore and the target name of its timeseries; a
  key without such a timeseries is absent. The key is the sorted list of the
  identifier items, \<open>None\<close> without identifiers, and two identifier dicts with the
  same items in different orders give the same key.
\<close>

theorem compute_median_forecasts_timeseries_partition:
  assumes "length forecasts_list = length train_list_dataset"
  shows "\<exists>d. compute_median_forecasts_timeseries E m forecasts_list train_list_dataset = Inr d
           \<and> distinct (map fst d)
           \<and> sum_list (map (\<lambda>(k, l). length l) d) = length forecasts_list
           \<and> (\<forall>k. map_of d k =
                 (let l = map (\<lambda>(f, ts).
                                 (quantile_forecasts_series E f (1 / 2) (custom_frequency m))
                                   \<lparr> series_name := model_name m @ ''_'' @ target_name ts \<rparr>)
                            (filter (\<lambda>(f, ts). (case identifiers ts of None \<Rightarrow> None
                                                 | Some ids \<Rightarrow> Some (sort ids)) = k)
                               (zip forecasts_list train_list_dataset))
                  in if l = [] then None else Some l))
           \<and> (\<forall>ts. timeseries_identifier_key ts
                       = (case identifiers ts of None \<Rightarrow> None | Some ids \<Rightarrow> Some (sort ids)))
           \<and> (\<forall>ts ts' ids ids'.
                 identifiers ts = Some ids \<and> identifiers ts' = Some ids' \<and> mset ids = mset ids'
                   \<longrightarrow> timeseries_identifier_key ts = timeseries_identifier_key ts')"
proof -
  from median_forecasts_timeseries_entries [OF assms, of E m]
  obtain d where
    d: "compute_median_forecasts_timeseries E m forecasts_list train_list_dataset = Inr d"
       "distinct (map fst d)"
       "sum_list (map (\<lambda>(k, l). length l) d) = length forecasts_list"
       "\<forall>k. map_of d k =
                 (if series_of_key E m forecasts_list train_list_dataset k = [] then None
                  else Some (series_of_key E m forecasts_list train_list_dataset k))"
    by blast
  from d(4) have e: "\<forall>k. map_of d k =
                 (let l = map (\<lambda>(f, ts).
                                 (quantile_forecasts_series E f (1 / 2) (custom_frequency m))
                                   \<lparr> series_name := model_name m @ ''_'' @ target_name ts \<rparr>)
                            (filter (\<lambda>(f, ts). (case identifiers ts of None \<Rightarrow> None
                                                 | Some ids \<Rightarrow> Some (sort ids)) = k)
                               (zip forecasts_list train_list_dataset))
                  in if l = [] then None else Some l)"
    unfolding series_of_key_explicit Let_def .
  have "\<forall>ts ts' ids ids'.
                 identifiers ts = Some ids \<and> identifiers ts' = Some ids' \<and> mset ids = mset ids'
                   \<longrightarrow> timeseries_identifier_key ts = timeseries_identifier_key ts'"
    using timeseries_identifier_key_permutation by blast
  moreover have "\<forall>ts. timeseries_identifier_key ts
                       = (case identifiers ts of None \<Rightarrow> None | Some ids \<Rightarrow> Some (sort ids))"
    by (simp add: timeseries_identifier_key_def split: option.splits)
  ultimately show ?thesis
    using d(1-3) e by blast
qed

lemma example_sorted_identifiers:
  "sort [(''store'', ''A''), (''item'', ''x'')] = [(''item'', ''x''), (''store'', ''A'')]"
  "sort [(''item'', ''y''), (''store'', ''B'')] = [(''item'', ''y''), (''store'', ''B'')]"
  "sort [(''item'', ''x''), (''store'', ''A'')] = [(''item'', ''x''), (''store'', ''A'')]"
  by (code_simp+)

lemma example_keys:
  "timeseries_identifier_key ts_a = Some [(''item'', ''x''), (''store'', ''A'')]"
  "timeseries_identifier_key ts_b = Some [(''item'', ''y''), (''store'', ''B'')]"
  "timeseries_identifier_key ts_a' = Some [(''item'', ''x''), (''store'', ''A'')]"
  by (simp_all add: timeseries_identifier_key_def ts_a_def ts_b_def ts_a'_def
        example_sorted_identifiers)

theorem compute_median_forecasts_timeseries_partition_witness:
  "length [Forecast 0, Forecast 1, Forecast 2] = length [ts_a, ts_b, ts_a']
   \<and> (\<exists>d. compute_median_forecasts_timeseries example_env deepar_model
             [Forecast 0, Forecast 1, Forecast 2] [ts_a, ts_b, ts_a'] = Inr d
          \<and> map_of d (Some [(''item'', ''x''), (''store'', ''A'')])
              = Some [\<lparr> series_name = ''deepar_sales'', series_values = [1 / 2] \<rparr>,
                      \<lparr> series_name = ''deepar_returns'', series_values = [5 / 2] \<rparr>]
          \<and> map_of d (Some [(''item'', ''y''), (''store'', ''B'')])
              = Some [\<lparr> series_name = ''deepar_sales'', series_values = [3 / 2] \<rparr>]
          \<and> map_of d None = None)
   \<and> mset (the (identifiers ts_a)) = mset (the (identifiers ts_a'))
   \<and> timeseries_identifier_key ts_a = timeseries_identifier_key ts_a'"
proof -
  have l: "length [Forecast 0, Forecast 1, Forecast 2] = length [ts_a, ts_b, ts_a']"
    by simp
  from compute_median_forecasts_timeseries_partition [OF l, of example_env deepar_model]
  obtain d where
    d: "compute_median_forecasts_timeseries example_env deepar_model
             [Forecast 0, Forecast 1, Forecast 2] [ts_a, ts_b, ts_a'] = Inr d"
       "\<And>k. map_of d k =
              (let l = map (\<lambda>(f, ts).
                              (quantile_forecasts_series example_env f (1 / 2)
                                 (custom_frequency deepar_model))
                                \<lparr> series_name := model_name deepar_model @ ''_''
                                                    @ target_name ts \<rparr>)
                         (filter (\<lambda>(f, ts). (case identifiers ts of None \<Rightarrow> None
                                              | Some ids \<Rightarrow> Some (sort ids)) = k)
                            (zip [Forecast 0, Forecast 1, Forecast 2] [ts_a, ts_b, ts_a']))
               in if l = [] then None else Some l)"
    by blast
  have m: "mset (the (identifiers ts_a)) = mset (the (identifiers ts_a'))"
    by (simp add: ts_a_def ts_a'_def)
  have q: "\<And>n q freq. quantile_forecasts_series example_env (Forecast n) q freq
                = \<lparr> series_name = freq, series_values = [real n + q] \<rparr>"
    by (simp add: example_env_def)
  have i: "(case identifiers ts_a of None \<Rightarrow> None | Some ids \<Rightarrow> Some (sort ids))
             = Some [(''item'', ''x''), (''store'', ''A'')]"
          "(case identifiers ts_b of None \<Rightarrow> None | Some ids \<Rightarrow> Some (sort ids))
             = Some [(''item'', ''y''), (''store'', ''B'')]"
          "(case identifiers ts_a' of None \<Rightarrow> None | Some ids \<Rightarrow> Some (sort ids))
             = Some [(''item'', ''x''), (''store'', ''A'')]"
    using example_keys by (simp_all add: timeseries_identifier_key_def)
  have n: "target_name ts_a = ''sales''" "target_name ts_b = ''sales''"
          "target_name ts_a' = ''returns''" "model_name deepar_model = ''deepar''"
    by (simp_all add: ts_a_def ts_b_def ts_a'_def deepar_model_def)
  have "map_of d (Some [(''item'', ''x''), (''store'', ''A'')])
              = Some [\<lparr> series_name = ''deepar_sales'', series_values = [1 / 2] \<rparr>,
                      \<lparr> series_name = ''deepar_returns'', series_values = [5 / 2] \<rparr>]"
       "map_of d (Some [(''item'', ''y''), (''store'', ''B'')])
              = Some [\<lparr> series_name = ''deepar_sales'', series_values = [3 / 2] \<rparr>]"
       "map_of d None = None"
    by (simp_all add: d(2) q i n)
  with d(1) m example_keys show ?thesis by simp
qed

subsection \<open>The recipe\<close>

lemma run_steps_complete:
  "run_steps raises ss = (calls, True) \<Longrightarrow> calls = ss"
  by (induction ss arbitrary: calls) (auto split: if_splits prod.splits)

lemma run_steps_take:
  "run_steps raises ss = (calls, ok) \<Longrightarrow> \<exists>k. calls = take k ss"
proof (induction ss arbitrary: calls ok)
  case Nil
  then show ?case by simp
next
  case (Cons s ss)
  show ?case
  proof (cases "raises s")
    case True
    with Cons.prems have "calls = take 1 (s # ss)" by simp
    then show ?thesis by blast
  next
    case False
    with Cons.prems obtain rest where r: "run_steps raises ss = (rest, ok)" "calls = s # rest"
      by (auto split: prod.splits)
    from Cons.IH [OF r(1)] obtain k where "rest = take k ss" by blast
    with r(2) have "calls = take (Suc k) (s # ss)" by simp
    then show ?thesis by blast
  qed
qed

lemma takeWhile_take_mem:
  "b \<in> set (take k xs) \<Longrightarrow>
   takeWhile (\<lambda>x. x \<noteq> b) (take k xs) = takeWhile (\<lambda>x. x \<noteq> b) xs"
proof (induction xs arbitrary: k)
  case Nil
  then show ?case by simp
next
  case (Cons x xs)
  then show ?case by (cases k) auto
qed

lemma called_before_take:
  "called_before a b xs \<Longrightarrow> b \<in> set (take k xs) \<Longrightarrow> called_before a b (take k xs)"
  by (simp add: called_before_def takeWhile_take_mem)

lemma recipe_script_order:
  "called_before EvaluateAll FitAll (recipe_script mf)"
  "called_before EvaluateAll (WriteWithSchema EvaluationDataset) (recipe_script mf)"
  "called_before FitAll (WriteWithSchema EvaluationDataset) (recipe_script mf)"
  "called_before (WriteWithSchema EvaluationDataset) (SetColumnDescription EvaluationDataset)
     (recipe_script mf)"
  by (simp_all add: called_before_def recipe_script_def)

lemma recipe_script_forecasts_order:
  "WriteWithSchema EvaluationForecasts \<in> set (recipe_script mf) \<Longrightarrow>
     called_before EvaluateAll (WriteWithSchema EvaluationForecasts) (recipe_script mf)
     \<and> called_before FitAll (WriteWithSchema EvaluationForecasts) (recipe_script mf)"
  by (cases mf) (simp_all add: called_before_def recipe_script_def)

lemma recipe_script_forecasts:
  "WriteWithSchema EvaluationForecasts \<in> set (recipe_script mf) \<longleftrightarrow> mf"
  "SetColumnDescription EvaluationForecasts \<in> set (recipe_script mf) \<longleftrightarrow> mf"
  "GetEvaluationForecastsDf \<in> set (recipe_script mf) \<longleftrightarrow> mf"
  "CreateEvaluationForecastsColumnDescription \<in> set (recipe_script mf) \<longleftrightarrow> mf"
  "mf \<Longrightarrow> called_before (WriteWithSchema EvaluationForecasts)
            (SetColumnDescription EvaluationForecasts) (recipe_script mf)"
  by (simp_all add: called_before_def recipe_script_def)

text \<open>
  Claim C6. On a recipe run that reaches the end, the evaluation metrics dataset is
  written and its column descriptions are set after that; the evaluation forecasts
  dataset is written, and given column descriptions, exactly when \<open>make_forecasts\<close> is
  true, the descriptions after the writing; when \<open>make_forecasts\<close> is false the
  forecasts frame is not even asked for.
\<close>

theorem recipe_column_description_bookkeeping:
  assumes "recipe raises make_forecasts = (calls, True)"
  shows "WriteWithSchema EvaluationDataset \<in> set calls
     \<and> called_before (WriteWithSchema EvaluationDataset)
          (SetColumnDescription EvaluationDataset) calls
     \<and> SetColumnDescription EvaluationDataset \<in> set calls
     \<and> (WriteWithSchema EvaluationForecasts \<in> set calls \<longleftrightarrow> make_forecasts)
     \<and> (SetColumnDescription EvaluationForecasts \<in> set calls \<longleftrightarrow> make_forecasts)
     \<and> (make_forecasts \<longrightarrow>
           called_before (WriteWithSchema EvaluationForecasts)
             (SetColumnDescription EvaluationForecasts) calls)
     \<and> (\<not> make_forecasts \<longrightarrow>
           GetEvaluationForecastsDf \<notin> set calls
           \<and> CreateEvaluationForecastsColumnDescription \<notin> set calls)"
proof -
  from assms have c: "calls = recipe_script make_forecasts"
    by (simp add: recipe_def run_steps_complete)
  have "WriteWithSchema EvaluationDataset \<in> set calls"
       "SetColumnDescription EvaluationDataset \<in> set calls"
    by (simp_all add: c recipe_script_def)
  then show ?thesis
    using recipe_script_order(4) [of make_forecasts] recipe_script_forecasts [of make_forecasts]
    by (cases make_forecasts) (auto simp: c)
qed

theorem recipe_column_description_bookkeeping_witness:
  "recipe (\<lambda>s. False) False
     = ([GetRecipeConfig, LoadTrainingConfig, GetModelsParameters, GetDataframe,
         AssertContinuousTimeColumn, NewGlobalModels, InitAllModels, EvaluateAll, FitAll,
         SaveAll, GetMetricsDf, WriteWithSchema EvaluationDataset,
         CreateMetricsColumnDescription, SetColumnDescription EvaluationDataset], True)
   \<and> WriteWithSchema EvaluationForecasts
        \<notin> set (fst (recipe (\<lambda>s. False) False))
   \<and> snd (recipe (\<lambda>s. False) True)
   \<and> WriteWithSchema EvaluationForecasts \<in> set (fst (recipe (\<lambda>s. False) True))
   \<and> called_before (WriteWithSchema EvaluationForecasts)
        (SetColumnDescription EvaluationForecasts) (fst (recipe (\<lambda>s. False) True))"
proof -
  have f: "recipe (\<lambda>s. False) False = (recipe_script False, True)"
    by (simp add: recipe_def recipe_script_def)
  have t: "recipe (\<lambda>s. False) True = (recipe_script True, True)"
    by (simp add: recipe_def recipe_script_def)
  from recipe_column_description_bookkeeping [OF f] recipe_column_description_bookkeeping [OF t]
  show ?thesis
    by (simp add: f t) (simp add: recipe_script_def)
qed


subsection \<open>Calls and assignments of \<open>train\<close> and \<open>train_evaluate\<close>\<close>

lemma train_estimator_snd:
  "snd (train_estimator E m w ds) = emit (training_call E m ds) w"
  by (simp add: train_estimator_def training_call_def split: option.splits)

lemma train_estimator_fst_world:
  "fst (train_estimator E m w ds) = fst (train_estimator E m w0 ds)"
  by (simp add: train_estimator_def split: option.splits)

lemma predictor_kwargs_frame:
  "predictor_kwargs E (m\<lparr>predictor := x\<rparr>) = predictor_kwargs E m"
  "predictor_kwargs E (m\<lparr>retraining_time := y\<rparr>) = predictor_kwargs E m"
  "predictor_kwargs E (m\<lparr>evaluation_time := z\<rparr>) = predictor_kwargs E m"
  by (simp_all add: predictor_kwargs_def Let_def)

lemma train_estimator_frame:
  "train_estimator E (m\<lparr>predictor := x\<rparr>) w ds = train_estimator E m w ds"
  "train_estimator E (m\<lparr>retraining_time := y\<rparr>) w ds = train_estimator E m w ds"
  "train_estimator E (m\<lparr>evaluation_time := z\<rparr>) w ds = train_estimator E m w ds"
  by (simp_all add: train_estimator_def predictor_kwargs_frame
        split: option.splits training_outcome.splits)

lemma training_call_frame:
  "training_call E (m\<lparr>predictor := x\<rparr>) ds = training_call E m ds"
  "training_call E (m\<lparr>retraining_time := y\<rparr>) ds = training_call E m ds"
  "training_call E (m\<lparr>evaluation_time := z\<rparr>) ds = training_call E m ds"
  by (simp_all add: training_call_def predictor_kwargs_frame split: option.splits)

lemma perf_counter_trace:
  "perf_counter E w = (t, w') \<Longrightarrow>
     trace w' = trace w \<and> ticks w' = Suc (ticks w) \<and> t = clock E (ticks w)"
  by (auto simp: perf_counter_def)

lemma emit_simps:
  "trace (emit ev w) = trace w @ [ev]" "ticks (emit ev w) = ticks w"
  by (simp_all add: emit_def)

text \<open>What \<open>_make_evaluation_predictions\<close> calls, and where its result comes from.\<close>

lemma make_evaluation_predictions'_Inl:
  assumes "make_evaluation_predictions' E w p test = (Inl e, w')"
  shows "ticks w' = ticks w
     \<and> (\<exists>fc k. 0 < k \<and> k \<le> 2
           \<and> trace w' = trace w
                @ take k [MakeEvaluationPredictions p test, EvaluatorCall fc (length test)])"
proof (cases "external (make_evaluation_predictions E test p 100)")
  case (Inl e')
  with assms have "w' = emit (MakeEvaluationPredictions p test) w"
    by (simp add: make_evaluation_predictions'_def Let_def)
  then have "ticks w' = ticks w"
    "trace w' = trace w @ take 1 [MakeEvaluationPredictions p test,
                                  EvaluatorCall [] (length test)]"
    by (simp_all add: emit_simps)
  then show ?thesis by (metis zero_less_one one_le_numeral)
next
  case (Inr x)
  obtain fc it where x: "x = (fc, it)" by (cases x)
  with Inr assms have "w' = emit (EvaluatorCall fc (length test))
                               (emit (MakeEvaluationPredictions p test) w)"
    by (auto simp: make_evaluation_predictions'_def Let_def split: sum.splits)
  then have "ticks w' = ticks w"
    "trace w' = trace w @ take 2 [MakeEvaluationPredictions p test,
                                  EvaluatorCall fc (length test)]"
    by (simp_all add: emit_simps)
  then show ?thesis by (metis zero_less_numeral order_refl)
qed

lemma make_evaluation_predictions'_Inr:
  assumes "make_evaluation_predictions' E w p test = (Inr (agg, item, fc), w')"
  shows "ticks w' = ticks w
     \<and> trace w' = trace w @ [MakeEvaluationPredictions p test, EvaluatorCall fc (length test)]
     \<and> (\<exists>it. external (make_evaluation_predictions E test p 100) = Inr (fc, it)
           \<and> external (evaluator E (min 2 (cpu_count E)) it fc (length test))
               = Inr (agg, item))"
  using assms
  by (auto simp: make_evaluation_predictions'_def Let_def emit_simps split: sum.splits)

text \<open>\<open>train\<close>: its calls, and the fields it assigns.\<close>

lemma train_Inr:
  assumes "train E m w ds reinit = (Inr u, m', w')"
  shows "(\<exists>p. fst (train_estimator E m' w ds) = Inr p \<and> predictor m' = Some p)
     \<and> retraining_time m' = clock E (Suc (ticks w)) - clock E (ticks w)
     \<and> (if reinit
         then external (mh_estimator (handler E) (model_name m) (model_parameters m)
                          (estimator_kwargs m)) = Inr (estimator m')
         else estimator m' = estimator m)
     \<and> m' = m\<lparr>estimator := estimator m', predictor := predictor m',
                retraining_time := retraining_time m'\<rparr>
     \<and> ticks w' = Suc (Suc (ticks w))
     \<and> trace w' = trace w
          @ (if reinit then [HandlerEstimator (estimator_kwargs m)] else [])
          @ [training_call E m' ds]"
proof (cases reinit)
  case False
  obtain r1 w3 where te: "train_estimator E m (w\<lparr>ticks := Suc (ticks w)\<rparr>) ds = (r1, w3)"
    by (cases "train_estimator E m (w\<lparr>ticks := Suc (ticks w)\<rparr>) ds")
  from train_estimator_snd [of E m "w\<lparr>ticks := Suc (ticks w)\<rparr>" ds] te
  have w3: "w3 = emit (training_call E m ds) (w\<lparr>ticks := Suc (ticks w)\<rparr>)" by simp
  from assms False te obtain p where p: "r1 = Inr p"
    and m': "m' = m\<lparr>predictor := Some p,
                     retraining_time := clock E (ticks w3) - clock E (ticks w)\<rparr>"
    and w': "w' = w3\<lparr>ticks := Suc (ticks w3)\<rparr>"
    by (auto simp: train_def perf_counter_def Let_def split: sum.splits)
  have "fst (train_estimator E m' w ds) = Inr p"
    using te p train_estimator_fst_world [of E m w ds "w\<lparr>ticks := Suc (ticks w)\<rparr>"]
    by (simp add: m' train_estimator_frame)
  then show ?thesis
    using False by (simp add: m' w' w3 emit_def training_call_frame)
next
  case True
  let ?kw = "estimator_kwargs m"
  let ?w1 = "w\<lparr>ticks := Suc (ticks w)\<rparr>"
  from assms True obtain est where
    est: "external (mh_estimator (handler E) (model_name m) (model_parameters m) ?kw) = Inr est"
    by (cases "external (mh_estimator (handler E) (model_name m) (model_parameters m) ?kw)")
       (auto simp: train_def perf_counter_def Let_def)
  let ?m1 = "m\<lparr>estimator := est\<rparr>"
  let ?w2 = "emit (HandlerEstimator ?kw) ?w1"
  obtain r1 w3 where te: "train_estimator E ?m1 ?w2 ds = (r1, w3)"
    by (cases "train_estimator E ?m1 ?w2 ds")
  from train_estimator_snd [of E ?m1 ?w2 ds] te
  have w3: "w3 = emit (training_call E ?m1 ds) ?w2" by simp
  from assms True est te obtain p where p: "r1 = Inr p"
    and m': "m' = ?m1\<lparr>predictor := Some p,
                       retraining_time := clock E (ticks w3) - clock E (ticks w)\<rparr>"
    and w': "w' = w3\<lparr>ticks := Suc (ticks w3)\<rparr>"
    by (auto simp: train_def perf_counter_def Let_def split: sum.splits)
  have "fst (train_estimator E m' w ds) = Inr p"
    using te p train_estimator_fst_world [of E ?m1 w ds ?w2]
    by (simp add: m' train_estimator_frame)
  then show ?thesis
    using True est by (simp add: m' w' w3 emit_def training_call_frame)
qed

lemma train_Inl:
  assumes "train E m w ds True = (Inl e, m', w')"
  shows "predictor m' = predictor m \<and> retraining_time m' = retraining_time m
     \<and> m' = m\<lparr>estimator := estimator m'\<rparr>
     \<and> (\<exists>k. 0 < k \<and> k \<le> 2
           \<and> trace w' = trace w
                @ take k [HandlerEstimator (estimator_kwargs m), training_call E m' ds])"
proof (cases "external (mh_estimator (handler E) (model_name m) (model_parameters m)
                          (estimator_kwargs m))")
  case (Inl e')
  with assms have "m' = m" "w' = emit (HandlerEstimator (estimator_kwargs m))
                                   (w\<lparr>ticks := Suc (ticks w)\<rparr>)"
    by (auto simp: train_def perf_counter_def Let_def)
  then have "m' = m\<lparr>estimator := estimator m'\<rparr>" "predictor m' = predictor m"
    "retraining_time m' = retraining_time m"
    "trace w' = trace w @ take 1 [HandlerEstimator (estimator_kwargs m), training_call E m' ds]"
    by (simp_all add: emit_def)
  then show ?thesis by (metis zero_less_one one_le_numeral)
next
  case (Inr est)
  let ?m1 = "m\<lparr>estimator := est\<rparr>"
  let ?w2 = "emit (HandlerEstimator (estimator_kwargs m)) (w\<lparr>ticks := Suc (ticks w)\<rparr>)"
  obtain r1 w3 where te: "train_estimator E ?m1 ?w2 ds = (r1, w3)"
    by (cases "train_estimator E ?m1 ?w2 ds")
  from train_estimator_snd [of E ?m1 ?w2 ds] te
  have w3: "w3 = emit (training_call E ?m1 ds) ?w2" by simp
  from assms Inr te have "m' = ?m1" "w' = w3"
    by (auto simp: train_def perf_counter_def Let_def split: sum.splits)
  then have "m' = m\<lparr>estimator := estimator m'\<rparr>" "predictor m' = predictor m"
    "retraining_time m' = retraining_time m"
    "trace w' = trace w @ take 2 [HandlerEstimator (estimator_kwargs m), training_call E m' ds]"
    by (simp_all add: w3 emit_def)
  then show ?thesis by (metis zero_less_numeral order_refl)
qed







subsection \<open>Formatting the metrics\<close>

lemma df_set_list_Inr:
  assumes "df_set_list c vs df = Inr df'"
  shows "length (df_rows df') = length vs
     \<and> df_columns df' = (if c \<in> set (df_columns df) then df_columns df
                          else df_columns df @ [c])
     \<and> (\<forall>i<length vs. (df_rows df' ! i) c = vs ! i)
     \<and> (\<forall>i<length (df_rows df). \<forall>c'. c' \<noteq> c \<longrightarrow>
           (df_rows df' ! i) c' = (df_rows df ! i) c')"
  using assms
  by (auto simp: df_set_list_def Let_def split: if_splits)


lemma map_of_init_identifiers_values:
  "map_of (foldl (\<lambda>d c. dict_set c [] d) acc cols) c
     = (if c \<in> set cols then Some [] else map_of acc c)"
  by (induction cols arbitrary: acc) (auto simp: map_of_dict_set)

lemma append_identifiers_Inr:
  assumes "append_identifiers cols ts vals = Inr vals'" "distinct cols"
  shows "(\<forall>c\<in>set cols. \<exists>d v l. identifiers ts = Some d \<and> map_of d c = Some v
                          \<and> map_of vals c = Some l \<and> map_of vals' c = Some (l @ [v]))
     \<and> (\<forall>c. c \<notin> set cols \<longrightarrow> map_of vals' c = map_of vals c)"
  using assms
proof (induction cols arbitrary: vals)
  case Nil
  then show ?case by simp
next
  case (Cons c cs)
  from Cons.prems(1) obtain l d v where
    s: "map_of vals c = Some l" "identifiers ts = Some d" "map_of d c = Some v"
       "append_identifiers cs ts (dict_set c (l @ [v]) vals) = Inr vals'"
    by (auto split: option.splits)
  from Cons.prems(2) have dc: "c \<notin> set cs" "distinct cs" by simp_all
  note ih = Cons.IH [OF s(4) dc(2)]
  have c: "map_of vals' c = Some (l @ [v])"
    using ih dc(1) by (simp add: map_of_dict_set)
  have cs: "\<forall>c'\<in>set cs. \<exists>d v l. identifiers ts = Some d \<and> map_of d c' = Some v
                          \<and> map_of vals c' = Some l \<and> map_of vals' c' = Some (l @ [v])"
    using ih dc(1) by (auto simp: map_of_dict_set split: if_splits)
  have other: "\<forall>c'. c' \<notin> set (c # cs) \<longrightarrow> map_of vals' c' = map_of vals c'"
    using ih by (simp add: map_of_dict_set)
  from c cs other s show ?case by auto
qed


lemma append_identifiers_Nil_cols: "append_identifiers [] ts vals = Inr vals"
  by simp

lemma collect_columns_Inr:
  assumes "collect_columns cols ds tc vals = Inr (tc', vals')" "distinct cols"
  shows "tc' = tc @ map target_name ds
     \<and> (\<forall>c\<in>set cols. \<forall>l. map_of vals c = Some l \<longrightarrow>
           map_of vals' c = Some (l @ map (\<lambda>ts. identifier_value ts c) ds))
     \<and> (\<forall>ts\<in>set ds. \<forall>c\<in>set cols. \<exists>d v. identifiers ts = Some d \<and> map_of d c = Some v)"
  using assms
proof (induction ds arbitrary: tc vals)
  case Nil
  then show ?case by simp
next
  case (Cons ts ds)
  from Cons.prems(1) obtain vals1 where
    a: "append_identifiers cols ts vals = Inr vals1"
    and r: "collect_columns cols ds (tc @ [target_name ts]) vals1 = Inr (tc', vals')"
    by (auto split: sum.splits)
  note ai = append_identifiers_Inr [OF a Cons.prems(2)]
  note ih = Cons.IH [OF r Cons.prems(2)]
  have "tc' = tc @ map target_name (ts # ds)" using ih by simp
  moreover have "\<forall>c\<in>set cols. \<forall>l. map_of vals c = Some l \<longrightarrow>
           map_of vals' c = Some (l @ map (\<lambda>ts. identifier_value ts c) (ts # ds))"
  proof (intro ballI allI impI)
    fix c l assume c: "c \<in> set cols" and l: "map_of vals c = Some l"
    from ai c l obtain d v where
      dv: "identifiers ts = Some d" "map_of d c = Some v" "map_of vals1 c = Some (l @ [v])"
      by fastforce
    from ih c dv(3)
    have "map_of vals' c = Some ((l @ [v]) @ map (\<lambda>ts. identifier_value ts c) ds)"
      by blast
    with dv show "map_of vals' c = Some (l @ map (\<lambda>ts. identifier_value ts c) (ts # ds))"
      by (simp add: identifier_value_def)
  qed
  moreover have "\<forall>ts'\<in>set (ts # ds). \<forall>c\<in>set cols.
                   \<exists>d v. identifiers ts' = Some d \<and> map_of d c = Some v"
    using ai ih by auto
  ultimately show ?case by blast
qed



lemma df_set_list_Inr_rows:
  "df_set_list c vs df = Inr df' \<Longrightarrow> 0 < length (df_rows df) \<Longrightarrow>
     length vs = length (df_rows df)"
  by (auto simp: df_set_list_def Let_def split: if_splits)

lemma set_identifiers_Inr:
  assumes "set_identifiers cols vals item agg = Inr (item', agg')" "distinct cols"
    "0 < length (df_rows item)"
  shows "length (df_rows item') = length (df_rows item)
     \<and> set (df_columns item') = set (df_columns item) \<union> set cols
     \<and> (\<forall>c\<in>set cols. \<exists>l. map_of vals c = Some l \<and> length l = length (df_rows item)
            \<and> (\<forall>i<length (df_rows item). (df_rows item' ! i) c = CId (l ! i)))
     \<and> (\<forall>c. c \<notin> set cols \<longrightarrow>
            (\<forall>i<length (df_rows item). (df_rows item' ! i) c = (df_rows item ! i) c))
     \<and> (\<forall>c. map_of agg' c = (if c \<in> set cols then Some (CStr AGGREGATED_ROW)
                               else map_of agg c))"
  using assms
proof (induction cols arbitrary: item agg)
  case Nil
  then show ?case by simp
next
  case (Cons c cs)
  let ?n = "length (df_rows item)"
  from Cons.prems(1) obtain l item1 where
    l: "map_of vals c = Some l"
    and s: "df_set_list c (map CId l) item = Inr item1"
    and r: "set_identifiers cs vals item1 (dict_set c (CStr AGGREGATED_ROW) agg)
              = Inr (item', agg')"
    by (auto split: option.splits sum.splits)
  from Cons.prems(2) have dc: "c \<notin> set cs" "distinct cs" by simp_all
  from df_set_list_Inr_rows [OF s Cons.prems(3)] have ll: "length l = ?n" by simp
  note p1 = df_set_list_Inr [OF s]
  from p1 ll have n1: "length (df_rows item1) = ?n" by simp
  with Cons.prems(3) have pos: "0 < length (df_rows item1)" by simp
  note ih = Cons.IH [OF r dc(2) pos]
  have a: "length (df_rows item') = ?n" using ih n1 by simp
  have b: "set (df_columns item') = set (df_columns item) \<union> set (c # cs)"
    using ih p1 by auto
  have c1: "\<forall>i<?n. (df_rows item' ! i) c = CId (l ! i)"
    using ih dc(1) p1 ll n1 by simp
  have c2: "\<forall>c'\<in>set cs. \<exists>l. map_of vals c' = Some l \<and> length l = ?n
            \<and> (\<forall>i<?n. (df_rows item' ! i) c' = CId (l ! i))"
    using ih n1 by simp
  have d: "\<forall>c'. c' \<notin> set (c # cs) \<longrightarrow>
            (\<forall>i<?n. (df_rows item' ! i) c' = (df_rows item ! i) c')"
    using ih p1 n1 by simp
  have e: "\<forall>c'. map_of agg' c' = (if c' \<in> set (c # cs) then Some (CStr AGGREGATED_ROW)
                               else map_of agg c')"
    using ih by (simp add: map_of_dict_set)
  from a b c1 c2 d e l ll show ?case by auto
qed



lemma format_metrics_Inr_steps:
  assumes "format_metrics E m agg item ds = Inr (metrics, ids)"
  shows "\<exists>ts0 rest tc vals' item2 item3 agg4 sel js.
           ds = ts0 # rest
         \<and> ids = (case identifiers ts0 of Some d \<Rightarrow> map fst d | None \<Rightarrow> [])
         \<and> collect_columns ids ds [] (foldl (\<lambda>d c. dict_set c [] d) [] ids) = Inr (tc, vals')
         \<and> df_set_list TARGET_COLUMN (map CStr tc)
              (df_set_scalar MODEL_COLUMN (CStr (mh_get_label (handler E) (model_name m))) item)
             = Inr item2
         \<and> set_identifiers ids vals' item2
              (dict_set (TRAINING_TIME E)
                 (CNum (round2 E (evaluation_time m + retraining_time m)))
                 (dict_set TARGET_COLUMN (CStr AGGREGATED_ROW)
                    (dict_set MODEL_COLUMN (CStr (mh_get_label (handler E) (model_name m)))
                       agg)))
             = Inr (item3, agg4)
         \<and> df_select (selected_columns E ids) (df_append agg4 item3) = Inr sel
         \<and> get_model_parameters_json E m ds = Inr js
         \<and> metrics = df_set_scalar MODEL_PARAMETERS (CStr js) sel"
  using assms
  by (auto simp: format_metrics_def Let_def item0_def
           split: sum.splits prod.splits list.splits)


lemma df_select_Inr:
  "df_select cs df = Inr df' \<Longrightarrow> df' = \<lparr> df_columns = cs, df_rows = df_rows df \<rparr>"
  by (auto simp: df_select_def split: list.splits)

lemma format_metrics_Inr:
  assumes fm: "format_metrics E m agg item ds = Inr (metrics, ids)" and di: "distinct ids"
  shows "ds \<noteq> []"
    and "ids = (case identifiers (hd ds) of Some d \<Rightarrow> map fst d | None \<Rightarrow> [])"
    and "length (df_rows metrics) = Suc (length ds)"
    and "df_columns metrics =
           (if MODEL_PARAMETERS \<in> set (selected_columns E ids) then selected_columns E ids
            else selected_columns E ids @ [MODEL_PARAMETERS])"
    and "\<forall>i<length ds. \<forall>c\<in>set ids. c \<noteq> MODEL_PARAMETERS \<longrightarrow>
           (df_rows metrics ! i) c = CId (identifier_value (ds ! i) c)"
    and "TARGET_COLUMN \<notin> set ids \<longrightarrow>
           (\<forall>i<length ds. (df_rows metrics ! i) TARGET_COLUMN = CStr (target_name (ds ! i)))"
    and "MODEL_COLUMN \<notin> set ids \<and> length (df_rows item) = length ds \<longrightarrow>
           (\<forall>i<length ds. (df_rows metrics ! i) MODEL_COLUMN
                             = CStr (mh_get_label (handler E) (model_name m)))"
    and "\<forall>c\<in>set ids. c \<noteq> MODEL_PARAMETERS \<longrightarrow>
           last (df_rows metrics) c = CStr AGGREGATED_ROW"
    and "TARGET_COLUMN \<notin> set ids \<and> TRAINING_TIME E \<noteq> TARGET_COLUMN \<longrightarrow>
           last (df_rows metrics) TARGET_COLUMN = CStr AGGREGATED_ROW"
    and "MODEL_COLUMN \<notin> set ids \<and> TRAINING_TIME E \<noteq> MODEL_COLUMN \<longrightarrow>
           last (df_rows metrics) MODEL_COLUMN
             = CStr (mh_get_label (handler E) (model_name m))"
    and "\<forall>ts\<in>set ds. \<forall>c\<in>set ids. \<exists>d v. identifiers ts = Some d \<and> map_of d c = Some v"
proof -
  let ?label = "CStr (mh_get_label (handler E) (model_name m)) :: 'a cell"
  let ?n = "length ds"
  let ?item1 = "df_set_scalar MODEL_COLUMN ?label item"
  let ?agg3 = "dict_set (TRAINING_TIME E)
                 (CNum (round2 E (evaluation_time m + retraining_time m)))
                 (dict_set TARGET_COLUMN (CStr AGGREGATED_ROW)
                    (dict_set MODEL_COLUMN ?label agg))"
  from format_metrics_Inr_steps [OF fm]
  obtain ts0 rest tc vals' item2 item3 agg4 sel js where
    ds: "ds = ts0 # rest"
    and ids: "ids = (case identifiers ts0 of Some d \<Rightarrow> map fst d | None \<Rightarrow> [])"
    and cc: "collect_columns ids ds [] (foldl (\<lambda>d c. dict_set c [] d) [] ids) = Inr (tc, vals')"
    and s2: "df_set_list TARGET_COLUMN (map CStr tc) ?item1 = Inr item2"
    and si: "set_identifiers ids vals' item2 ?agg3 = Inr (item3, agg4)"
    and sel: "df_select (selected_columns E ids) (df_append agg4 item3) = Inr sel"
    and js: "get_model_parameters_json E m ds = Inr js"
    and me: "metrics = df_set_scalar MODEL_PARAMETERS (CStr js) sel"
    by blast
  show ne: "ds \<noteq> []" using ds by simp
  show "ids = (case identifiers (hd ds) of Some d \<Rightarrow> map fst d | None \<Rightarrow> [])"
    using ds ids by simp
  note c3 = collect_columns_Inr [OF cc di]
  from c3 have tc: "tc = map target_name ds" by simp
  from c3 have vals': "\<forall>c\<in>set ids. map_of vals' c
                          = Some (map (\<lambda>ts. identifier_value ts c) ds)"
    by (simp add: map_of_init_identifiers_values)
  from c3 show "\<forall>ts\<in>set ds. \<forall>c\<in>set ids. \<exists>d v. identifiers ts = Some d \<and> map_of d c = Some v"
    by simp
  note p2 = df_set_list_Inr [OF s2]
  from p2 tc have n2: "length (df_rows item2) = ?n" by simp
  with ne have pos: "0 < length (df_rows item2)" by simp
  note p3 = set_identifiers_Inr [OF si di pos]
  from p3 n2 have n3: "length (df_rows item3) = ?n" by simp
  from df_select_Inr [OF sel]
  have sel': "sel = \<lparr> df_columns = selected_columns E ids,
                      df_rows = df_rows (df_append agg4 item3) \<rparr>" .
  let ?mask = "\<lambda>r c. if c \<in> set (df_columns item3) then r c else CNaN"
  let ?aggrow = "\<lambda>c. case map_of agg4 c of Some v \<Rightarrow> v | None \<Rightarrow> CNaN"
  have rows: "df_rows metrics
                = map (\<lambda>r. r(MODEL_PARAMETERS := CStr js))
                    (map ?mask (df_rows item3) @ [?aggrow])"
    by (simp add: me sel' df_set_scalar_def df_append_def)
  show "length (df_rows metrics) = Suc (length ds)"
    by (simp add: rows n3)
  show "df_columns metrics =
           (if MODEL_PARAMETERS \<in> set (selected_columns E ids) then selected_columns E ids
            else selected_columns E ids @ [MODEL_PARAMETERS])"
    by (simp add: me sel' df_set_scalar_def)
  have row: "\<And>i c. i < ?n \<Longrightarrow> c \<noteq> MODEL_PARAMETERS \<Longrightarrow> c \<in> set (df_columns item3) \<Longrightarrow>
               (df_rows metrics ! i) c = (df_rows item3 ! i) c"
    by (simp add: rows n3 nth_append)
  have lastrow: "\<And>c. c \<noteq> MODEL_PARAMETERS \<Longrightarrow> last (df_rows metrics) c = ?aggrow c"
    by (simp add: rows last_map)
  have cols3: "set (df_columns item3) = set (df_columns item2) \<union> set ids"
    using p3 by simp
  have tcol: "TARGET_COLUMN \<in> set (df_columns item2)" "MODEL_COLUMN \<in> set (df_columns item2)"
    using p2 by (auto simp: df_set_scalar_def)
  have tm: "TARGET_COLUMN \<noteq> MODEL_PARAMETERS" "MODEL_COLUMN \<noteq> MODEL_PARAMETERS"
    "TARGET_COLUMN \<noteq> MODEL_COLUMN"
    by (simp_all add: TARGET_COLUMN_def MODEL_COLUMN_def MODEL_PARAMETERS_def)
  show "\<forall>i<length ds. \<forall>c\<in>set ids. c \<noteq> MODEL_PARAMETERS \<longrightarrow>
           (df_rows metrics ! i) c = CId (identifier_value (ds ! i) c)"
  proof (intro allI impI ballI)
    fix i c assume i: "i < ?n" and c: "c \<in> set ids" "c \<noteq> MODEL_PARAMETERS"
    from p3 c(1) vals' n2 i
    have "(df_rows item3 ! i) c = CId (map (\<lambda>ts. identifier_value ts c) ds ! i)"
      by auto
    with row [OF i c(2)] c(1) cols3 i
    show "(df_rows metrics ! i) c = CId (identifier_value (ds ! i) c)" by simp
  qed
  show "TARGET_COLUMN \<notin> set ids \<longrightarrow>
           (\<forall>i<length ds. (df_rows metrics ! i) TARGET_COLUMN = CStr (target_name (ds ! i)))"
  proof (intro allI impI)
    fix i assume t: "TARGET_COLUMN \<notin> set ids" and i: "i < ?n"
    from p3 t n2 i
    have "(df_rows item3 ! i) TARGET_COLUMN = (df_rows item2 ! i) TARGET_COLUMN" by simp
    also from p2 tc i have "\<dots> = CStr (target_name (ds ! i))" by simp
    finally show "(df_rows metrics ! i) TARGET_COLUMN = CStr (target_name (ds ! i))"
      using row [OF i tm(1)] tcol(1) cols3 by simp
  qed
  show "MODEL_COLUMN \<notin> set ids \<and> length (df_rows item) = length ds \<longrightarrow>
           (\<forall>i<length ds. (df_rows metrics ! i) MODEL_COLUMN = ?label)"
  proof (intro allI impI)
    fix i assume a: "MODEL_COLUMN \<notin> set ids \<and> length (df_rows item) = length ds"
      and i: "i < ?n"
    from p3 a n2 i
    have "(df_rows item3 ! i) MODEL_COLUMN = (df_rows item2 ! i) MODEL_COLUMN" by simp
    also from p2 a i tm(3) have "\<dots> = (df_rows ?item1 ! i) MODEL_COLUMN"
      by (simp add: df_set_scalar_def)
    also from a i have "\<dots> = ?label" by (simp add: df_set_scalar_def)
    finally show "(df_rows metrics ! i) MODEL_COLUMN = ?label"
      using row [OF i tm(2)] tcol(2) cols3 by simp
  qed
  have agg4: "\<And>c. map_of agg4 c = (if c \<in> set ids then Some (CStr AGGREGATED_ROW)
                                     else map_of ?agg3 c)"
    using p3 by simp
  show "\<forall>c\<in>set ids. c \<noteq> MODEL_PARAMETERS \<longrightarrow>
           last (df_rows metrics) c = CStr AGGREGATED_ROW"
    by (simp add: lastrow agg4)
  show "TARGET_COLUMN \<notin> set ids \<and> TRAINING_TIME E \<noteq> TARGET_COLUMN \<longrightarrow>
           last (df_rows metrics) TARGET_COLUMN = CStr AGGREGATED_ROW"
    using tm by (auto simp: lastrow agg4 map_of_dict_set)
  show "MODEL_COLUMN \<notin> set ids \<and> TRAINING_TIME E \<noteq> MODEL_COLUMN \<longrightarrow>
           last (df_rows metrics) MODEL_COLUMN = ?label"
    using tm by (auto simp: lastrow agg4 map_of_dict_set)
qed






text \<open>The definitions that evaluate \<open>_format_metrics\<close> in the concrete setting.\<close>

lemmas example_defs =
  example_env_def example_handler_def example_agg_metrics_def example_item_metrics_def
  deepar_model_def metrics_keys_def EVALUATION_METRICS_DESCRIPTIONS_def
  TARGET_COLUMN_def MODEL_COLUMN_def MODEL_PARAMETERS_def AGGREGATED_ROW_def IDENTIFIERS_def

lemmas format_metrics_defs =
  format_metrics_def item0_def dict_set_def df_set_scalar_def df_set_list_def df_append_def
  df_select_def selected_columns_def get_model_parameters_json_def model_params_dict_def
  json_dumps_def opt_int_def py_truediv_def Let_def




subsection \<open>The identifier columns that \<open>train_evaluate\<close> returns\<close>

lemma train_evaluate_Inr_format_metrics:
  assumes "train_evaluate E m w train_ds test_ds mf retrain = (Inr (metrics, ids, fdf), m', w')"
  shows "\<exists>m2 agg item. format_metrics E m2 agg item train_ds = Inr (metrics, ids)"
proof -
  from assms obtain m2 agg item fc where
    "evaluation_outputs E m2 agg item fc train_ds mf = Inr (metrics, ids, fdf)"
    by (auto simp: train_evaluate_def perf_counter_def Let_def
             split: prod.splits sum.splits if_splits)
  then have "format_metrics E m2 agg item train_ds = Inr (metrics, ids)"
    by (auto simp: evaluation_outputs_def split: sum.splits if_splits)
  then show ?thesis by blast
qed

text \<open>
  Claim C2, as amended. Whenever \<open>train_evaluate\<close> returns, the training dataset is
  not empty; the list of identifier columns it returns is empty when the first
  timeseries has no \<open>identifiers\<close> key, and is the list of that dict's keys
  otherwise; and then (the keys of a dict being distinct) the metrics frame has one
  row per series before the aggregated one, and each identifier column other than
  one named \<open>model_params\<close> holds in row \<open>i\<close> the value series \<open>i\<close> has for
  that key.
\<close>

theorem train_evaluate_identifiers_columns:
  assumes "train_evaluate E m w train_list_dataset test_list_dataset make_forecasts retrain
             = (Inr (metrics, identifiers_columns, forecasts_df), m', w')"
  shows "train_list_dataset \<noteq> []
     \<and> (identifiers (hd train_list_dataset) = None \<longrightarrow> identifiers_columns = [])
     \<and> (\<forall>d. identifiers (hd train_list_dataset) = Some d \<longrightarrow>
           identifiers_columns = map fst d
           \<and> (distinct (map fst d) \<longrightarrow>
                length (df_rows metrics) = length train_list_dataset + 1
                \<and> (\<forall>c\<in>set identifiers_columns. c \<noteq> MODEL_PARAMETERS \<longrightarrow>
                      (\<forall>i<length train_list_dataset.
                         (\<exists>di. identifiers (train_list_dataset ! i) = Some di
                                \<and> map_of di c
                                    = Some (identifier_value (train_list_dataset ! i) c))
                         \<and> (df_rows metrics ! i) c
                             = CId (identifier_value (train_list_dataset ! i) c)))))"
proof -
  let ?ds = train_list_dataset and ?ids = identifiers_columns
  from train_evaluate_Inr_format_metrics [OF assms]
  obtain m2 agg item where fm: "format_metrics E m2 agg item ?ds = Inr (metrics, ?ids)"
    by blast
  from format_metrics_Inr_steps [OF fm]
  have ne: "?ds \<noteq> []"
    and ids: "?ids = (case identifiers (hd ?ds) of Some d \<Rightarrow> map fst d | None \<Rightarrow> [])"
    by auto
  have "\<forall>d. identifiers (hd ?ds) = Some d \<longrightarrow>
           ?ids = map fst d
           \<and> (distinct (map fst d) \<longrightarrow>
                length (df_rows metrics) = length ?ds + 1
                \<and> (\<forall>c\<in>set ?ids. c \<noteq> MODEL_PARAMETERS \<longrightarrow>
                      (\<forall>i<length ?ds.
                         (\<exists>di. identifiers (?ds ! i) = Some di
                                \<and> map_of di c = Some (identifier_value (?ds ! i) c))
                         \<and> (df_rows metrics ! i) c = CId (identifier_value (?ds ! i) c))))"
  proof (intro allI impI conjI ballI)
    fix d assume d: "identifiers (hd ?ds) = Some d"
    with ids show i: "?ids = map fst d" by simp
    assume "distinct (map fst d)"
    with i have di: "distinct ?ids" by simp
    note p = format_metrics_Inr [OF fm di]
    from p(3) show "length (df_rows metrics) = length ?ds + 1" by simp
    fix c i assume c: "c \<in> set ?ids" "c \<noteq> MODEL_PARAMETERS" and il: "i < length ?ds"
    from p(5) c il show "(df_rows metrics ! i) c = CId (identifier_value (?ds ! i) c)"
      by simp
    from il have "?ds ! i \<in> set ?ds" by simp
    with p(11) c(1) obtain di v where "identifiers (?ds ! i) = Some di" "map_of di c = Some v"
      by blast
    then show "\<exists>di. identifiers (?ds ! i) = Some di
                   \<and> map_of di c = Some (identifier_value (?ds ! i) c)"
      by (simp add: identifier_value_def)
  qed
  with ne ids show ?thesis by simp
qed


text \<open>
  Without the exception the claim fails: with an identifier column named
  \<open>model_params\<close> the last assignment of \<open>_format_metrics\<close> puts the model parameters
  into that column, and the per-series row holds them in place of the identifier
  value \<open>A\<close>.
\<close>

lemmas train_evaluate_defs =
  train_evaluate_def train_estimator_def make_evaluation_predictions'_def
  evaluation_outputs_def perf_counter_def emit_def external_def train_def
  example_world_def

theorem train_evaluate_identifiers_columns_counterexample:
  "isl (fst (train_evaluate example_env deepar_model example_world
               [ts_params_identifier] [ts_params_identifier] False False)) = False
   \<and> identifiers ts_params_identifier = Some [(''model_params'', ''A'')]
   \<and> fst (snd (projr (fst (train_evaluate example_env deepar_model example_world
               [ts_params_identifier] [ts_params_identifier] False False))))
       = [''model_params'']
   \<and> (df_rows (fst (projr (fst (train_evaluate example_env deepar_model example_world
               [ts_params_identifier] [ts_params_identifier] False False)))) ! 0)
        ''model_params''
       = CStr (encode (float_repr example_env)
           (PDict [(KeyStr ''model_name'', PStr ''deepar''), (KeyStr ''frequency'', PStr ''W''),
                   (KeyStr ''prediction_length'', PInt 2),
                   (KeyStr ''use_external_features'', PBool True),
                   (KeyStr ''timeseries_number'', PInt 1),
                   (KeyStr ''timeseries_average_length'', PInt 2),
                   (KeyStr ''model_parameters'', PDict []), (KeyStr ''epoch'', PInt 10),
                   (KeyStr ''batch_size'', PInt 32),
                   (KeyStr ''num_batches_per_epoch'', PNone)]))"
  by (simp add: train_evaluate_defs format_metrics_defs example_defs ts_params_identifier_def
        py_round_def del: encode.simps)

lemma example_run:
  "isl (fst (train_evaluate example_env deepar_model example_world
               [ts_a, ts_b] [ts_a_test, ts_b_test] False retrain)) = False"
  by (simp add: train_evaluate_defs format_metrics_defs example_defs ts_a_def ts_b_def
        ts_a_test_def ts_b_test_def)

lemma example_run_plain:
  "isl (fst (train_evaluate example_env naive_model example_world
               [ts_plain] [ts_plain] False False)) = False"
  by (simp add: train_evaluate_defs format_metrics_defs example_defs ts_plain_def
        naive_model_def predictor_kwargs_def truthy_def)

lemma Inr_collapse3:
  "isl (fst X) = False \<Longrightarrow>
   X = (Inr (fst (projr (fst X)), fst (snd (projr (fst X))), snd (snd (projr (fst X)))),
        fst (snd X), snd (snd X))"
  by (cases X; cases "fst X") auto

theorem train_evaluate_identifiers_columns_witness:
  "fst (snd (projr (fst (train_evaluate example_env naive_model example_world
               [ts_plain] [ts_plain] False False)))) = []
   \<and> fst (snd (projr (fst (train_evaluate example_env deepar_model example_world
               [ts_a, ts_b] [ts_a_test, ts_b_test] False False)))) = [''store'', ''item'']
   \<and> (df_rows (fst (projr (fst (train_evaluate example_env deepar_model example_world
               [ts_a, ts_b] [ts_a_test, ts_b_test] False False)))) ! 1) ''store'' = CId ''B''
   \<and> (df_rows (fst (projr (fst (train_evaluate example_env deepar_model example_world
               [ts_a, ts_b] [ts_a_test, ts_b_test] False False)))) ! 0) ''item'' = CId ''x''"
proof -
  note p = train_evaluate_identifiers_columns [OF Inr_collapse3 [OF example_run_plain]]
  note q = train_evaluate_identifiers_columns
             [OF Inr_collapse3 [OF example_run [of False]]]
  have a: "identifiers (hd [ts_plain]) = None" by (simp add: ts_plain_def)
  have b: "identifiers (hd [ts_a, ts_b]) = Some [(''store'', ''A''), (''item'', ''x'')]"
    by (simp add: ts_a_def)
  have c: "distinct (map fst [(''store'', ''A''), (''item'', ''x'')])" by simp
  have m: "''store'' \<noteq> MODEL_PARAMETERS" "''item'' \<noteq> MODEL_PARAMETERS"
    by (simp_all add: MODEL_PARAMETERS_def)
  have v: "identifier_value ([ts_a, ts_b] ! 1) ''store'' = ''B''"
          "identifier_value ([ts_a, ts_b] ! 0) ''item'' = ''x''"
    by (simp_all add: identifier_value_def ts_a_def ts_b_def)
  from p a have "fst (snd (projr (fst (train_evaluate example_env naive_model example_world
               [ts_plain] [ts_plain] False False)))) = []"
    by blast
  moreover from q b c have i: "fst (snd (projr (fst (train_evaluate example_env deepar_model
               example_world [ts_a, ts_b] [ts_a_test, ts_b_test] False False))))
                = map fst [(''store'', ''A''), (''item'', ''x'')]"
    by blast
  moreover from q b c i m v
  have "(df_rows (fst (projr (fst (train_evaluate example_env deepar_model example_world
               [ts_a, ts_b] [ts_a_test, ts_b_test] False False)))) ! 1) ''store'' = CId ''B''"
       "(df_rows (fst (projr (fst (train_evaluate example_env deepar_model example_world
               [ts_a, ts_b] [ts_a_test, ts_b_test] False False)))) ! 0) ''item'' = CId ''x''"
    by (force, force)
  ultimately show ?thesis by simp
qed

subsection \<open>The order of training, evaluation and retraining\<close>

text \<open>
  Claim C3. The calls \<open>train_evaluate\<close> makes are a beginning of this sequence:
  the call that gets the evaluation predictor for \<open>train_list_dataset\<close> (the
  estimator's \<open>train\<close> on it, or the handler's \<open>predictor\<close> for a model without
  estimator), the evaluation predictions of that very predictor on
  \<open>test_list_dataset\<close>, the evaluator on these forecasts, and, only when \<open>retrain\<close>
  is set, the new estimator and its training on \<open>test_list_dataset\<close>. When
  \<open>train_evaluate\<close> returns, the sequence is complete and the result is formatted
  from what the evaluator gave for these forecasts. In every run of the recipe,
  \<open>fit_all\<close> and every writing of an output dataset come after \<open>evaluate_all\<close>, and
  the writings after \<open>fit_all\<close>; a run that reaches the end has made both calls.
\<close>

theorem train_evaluate_order:
  assumes "train_evaluate E m w train_list_dataset test_list_dataset make_forecasts retrain
             = (r, m', w')"
      and "recipe raises recipe_make_forecasts = (calls, ok)"
  shows "(\<exists>p fc k.
            trace w' = trace w
              @ take k ([training_call E m train_list_dataset,
                         MakeEvaluationPredictions p test_list_dataset,
                         EvaluatorCall fc (length test_list_dataset)]
                        @ (if retrain
                           then [HandlerEstimator (estimator_kwargs m),
                                 training_call E m' test_list_dataset]
                           else []))
          \<and> 0 < k
          \<and> (1 < k \<longrightarrow> fst (train_estimator E m w train_list_dataset) = Inr p)
          \<and> (\<forall>res. r = Inr res \<longrightarrow>
                k = (if retrain then 5 else 3)
                \<and> (\<exists>it agg item.
                      external (make_evaluation_predictions E test_list_dataset p 100)
                        = Inr (fc, it)
                      \<and> external (evaluator E (min 2 (cpu_count E)) it fc
                                    (length test_list_dataset)) = Inr (agg, item)
                      \<and> evaluation_outputs E m' agg item fc train_list_dataset make_forecasts
                          = Inr res)))
     \<and> (FitAll \<in> set calls \<longrightarrow> called_before EvaluateAll FitAll calls)
     \<and> (\<forall>d. WriteWithSchema d \<in> set calls \<longrightarrow>
              called_before EvaluateAll (WriteWithSchema d) calls
              \<and> called_before FitAll (WriteWithSchema d) calls)
     \<and> (ok \<longrightarrow> EvaluateAll \<in> set calls \<and> FitAll \<in> set calls)"
proof -
  let ?train = train_list_dataset and ?test = test_list_dataset
  let ?P = "\<lambda>p fc k.
            trace w' = trace w
              @ take k ([training_call E m ?train,
                         MakeEvaluationPredictions p ?test,
                         EvaluatorCall fc (length ?test)]
                        @ (if retrain
                           then [HandlerEstimator (estimator_kwargs m),
                                 training_call E m' ?test]
                           else []))
          \<and> 0 < k
          \<and> (1 < k \<longrightarrow> fst (train_estimator E m w ?train) = Inr p)
          \<and> (\<forall>res. r = Inr res \<longrightarrow>
                k = (if retrain then 5 else 3)
                \<and> (\<exists>it agg item.
                      external (make_evaluation_predictions E ?test p 100) = Inr (fc, it)
                      \<and> external (evaluator E (min 2 (cpu_count E)) it fc (length ?test))
                          = Inr (agg, item)
                      \<and> evaluation_outputs E m' agg item fc ?train make_forecasts = Inr res))"
  let ?w1 = "w\<lparr>ticks := Suc (ticks w)\<rparr>"
  obtain r1 w2 where te: "train_estimator E m ?w1 ?train = (r1, w2)"
    by (cases "train_estimator E m ?w1 ?train")
  from train_estimator_snd [of E m ?w1 ?train] te
  have w2: "trace w2 = trace w @ [training_call E m ?train]" by (simp add: emit_def)
  from train_estimator_fst_world [of E m w ?train ?w1] te
  have r1: "fst (train_estimator E m w ?train) = r1" by simp
  have part1: "\<exists>p fc k. ?P p fc k"
  proof (cases r1)
    case (Inl e)
    with assms(1) te have "r = Inl e" "w' = w2"
      by (simp_all add: train_evaluate_def perf_counter_def)
    with w2 have "?P (Predictor 0) [] 1" by simp
    then show ?thesis by blast
  next
    case (Inr p)
    obtain r2 w3 where me: "make_evaluation_predictions' E w2 p ?test = (r2, w3)"
      by (cases "make_evaluation_predictions' E w2 p ?test")
    show ?thesis
    proof (cases r2)
      case (Inl e)
      with assms(1) te Inr me have rw: "r = Inl e" "w' = w3"
        by (simp_all add: train_evaluate_def perf_counter_def)
      from make_evaluation_predictions'_Inl [of E w2 p ?test e w3] me Inl
      obtain fc k where k: "0 < k" "k \<le> 2"
        "trace w3 = trace w2 @ take k [MakeEvaluationPredictions p ?test,
                                        EvaluatorCall fc (length ?test)]"
        by blast
      from k(1,2) have "k = 1 \<or> k = 2" by arith
      with k(3) rw w2 r1 Inr have "?P p fc (Suc k)" by auto
      then show ?thesis by blast
    next
      case r2: (Inr x)
      obtain agg item fc where x: "x = (agg, item, fc)" by (cases x)
      from make_evaluation_predictions'_Inr [of E w2 p ?test agg item fc w3] me r2 x
      obtain it where
        w3: "trace w3 = trace w2 @ [MakeEvaluationPredictions p ?test,
                                     EvaluatorCall fc (length ?test)]"
        and ext: "external (make_evaluation_predictions E ?test p 100) = Inr (fc, it)"
          "external (evaluator E (min 2 (cpu_count E)) it fc (length ?test)) = Inr (agg, item)"
        by blast
      let ?m1 = "m\<lparr>evaluation_time := clock E (ticks w3) - clock E (ticks w)\<rparr>"
      let ?w4 = "w3\<lparr>ticks := Suc (ticks w3)\<rparr>"
      show ?thesis
      proof (cases retrain)
        case False
        with assms(1) te Inr me r2 x
        have "r = evaluation_outputs E ?m1 agg item fc ?train make_forecasts"
          "m' = ?m1" "w' = ?w4"
          by (auto simp: train_evaluate_def perf_counter_def Let_def)
        with w3 w2 r1 Inr ext False have "?P p fc 3" by auto
        then show ?thesis by blast
      next
        case True
        obtain r3 m2 w5 where tr: "train E ?m1 ?w4 ?test True = (r3, m2, w5)"
          by (cases "train E ?m1 ?w4 ?test True")
        show ?thesis
        proof (cases r3)
          case (Inl e)
          with assms(1) te Inr me r2 x True tr have rw: "r = Inl e" "m' = m2" "w' = w5"
            by (auto simp: train_evaluate_def perf_counter_def Let_def)
          from train_Inl [of E ?m1 ?w4 ?test e m2 w5] tr Inl
          obtain k where k: "0 < k" "k \<le> 2"
            "trace w5 = trace ?w4 @ take k [HandlerEstimator (estimator_kwargs ?m1),
                                            training_call E m2 ?test]"
            by blast
          from k(1,2) have "k = 1 \<or> k = 2" by arith
          with k(3) rw w3 w2 r1 \<open>r1 = Inr p\<close> True have "?P p fc (3 + k)" by auto
          then show ?thesis by blast
        next
          case r3: (Inr u)
          with assms(1) te Inr me r2 x True tr
          have rw: "r = evaluation_outputs E m2 agg item fc ?train make_forecasts"
            "m' = m2" "w' = w5"
            by (auto simp: train_evaluate_def perf_counter_def Let_def)
          from train_Inr [of E ?m1 ?w4 ?test True u m2 w5] tr r3
          have "trace w5 = trace ?w4 @ [HandlerEstimator (estimator_kwargs ?m1),
                                         training_call E m2 ?test]"
            by simp
          with rw w3 w2 r1 \<open>r1 = Inr p\<close> True ext have "?P p fc 5" by auto
          then show ?thesis by blast
        qed
      qed
    qed
  qed
  from assms(2) run_steps_take obtain k where
    c: "calls = take k (recipe_script recipe_make_forecasts)"
    unfolding recipe_def by blast
  have part2: "FitAll \<in> set calls \<longrightarrow> called_before EvaluateAll FitAll calls"
    by (simp add: c called_before_take recipe_script_order(1))
  have part3: "\<forall>d. WriteWithSchema d \<in> set calls \<longrightarrow>
              called_before EvaluateAll (WriteWithSchema d) calls
              \<and> called_before FitAll (WriteWithSchema d) calls"
  proof (intro allI impI)
    fix d assume d: "WriteWithSchema d \<in> set calls"
    then have "WriteWithSchema d \<in> set (recipe_script recipe_make_forecasts)"
      unfolding c by (rule in_set_takeD)
    then have "called_before EvaluateAll (WriteWithSchema d) (recipe_script recipe_make_forecasts)
       \<and> called_before FitAll (WriteWithSchema d) (recipe_script recipe_make_forecasts)"
      using recipe_script_order(2,3) recipe_script_forecasts_order by (cases d) auto
    with d show "called_before EvaluateAll (WriteWithSchema d) calls
              \<and> called_before FitAll (WriteWithSchema d) calls"
      by (simp add: c called_before_take)
  qed
  have part4: "ok \<longrightarrow> EvaluateAll \<in> set calls \<and> FitAll \<in> set calls"
  proof
    assume ok
    with assms(2) have "calls = recipe_script recipe_make_forecasts"
      by (simp add: recipe_def run_steps_complete)
    then show "EvaluateAll \<in> set calls \<and> FitAll \<in> set calls"
      by (simp add: recipe_script_def)
  qed
  from part1 part2 part3 part4 show ?thesis by blast
qed


lemma example_recipe_stops:
  "recipe (\<lambda>s. s = GetMetricsDf) True
     = ([GetRecipeConfig, LoadTrainingConfig, GetModelsParameters, GetDataframe,
         AssertContinuousTimeColumn, NewGlobalModels, InitAllModels, EvaluateAll, FitAll,
         SaveAll, GetMetricsDf], False)"
  by (simp add: recipe_def recipe_script_def)

theorem train_evaluate_order_witness:
  "isl (fst (train_evaluate example_env deepar_model example_world
               [ts_a, ts_b] [ts_a_test, ts_b_test] False True)) = False
   \<and> trace (snd (snd (train_evaluate example_env deepar_model example_world
               [ts_a, ts_b] [ts_a_test, ts_b_test] False True)))
       = [EstimatorTrain (Estimator 0) [ts_a, ts_b],
          MakeEvaluationPredictions (Predictor 1) [ts_a_test, ts_b_test],
          EvaluatorCall [Forecast 0, Forecast 1] 2,
          HandlerEstimator (estimator_kwargs deepar_model),
          EstimatorTrain (Estimator 0) [ts_a_test, ts_b_test]]
   \<and> FitAll \<in> set (fst (recipe (\<lambda>s. s = GetMetricsDf) True))
   \<and> called_before EvaluateAll FitAll (fst (recipe (\<lambda>s. s = GetMetricsDf) True))"
proof -
  let ?X = "train_evaluate example_env deepar_model example_world
               [ts_a, ts_b] [ts_a_test, ts_b_test] False True"
  have e: "?X = (fst ?X, fst (snd ?X), snd (snd ?X))" by simp
  have t: "trace (snd (snd ?X))
       = [EstimatorTrain (Estimator 0) [ts_a, ts_b],
          MakeEvaluationPredictions (Predictor 1) [ts_a_test, ts_b_test],
          EvaluatorCall [Forecast 0, Forecast 1] 2,
          HandlerEstimator (estimator_kwargs deepar_model),
          EstimatorTrain (Estimator 0) [ts_a_test, ts_b_test]]"
    by (simp add: train_evaluate_defs example_env_def example_handler_def deepar_model_def
          Let_def)
  have f: "FitAll \<in> set (fst (recipe (\<lambda>s. s = GetMetricsDf) True))"
    by (simp add: example_recipe_stops)
  from train_evaluate_order [OF e example_recipe_stops] f
  have "called_before EvaluateAll FitAll (fst (recipe (\<lambda>s. s = GetMetricsDf) True))"
    by (simp add: example_recipe_stops)
  with t f example_run [of True] show ?thesis by simp
qed


end
